theory Spec2Isabelle
  imports Main "HOL-Library.Word"
begin

section \<open>The docker backend of the stager\<close>

text \<open>
  A shallow embedding of \<^verbatim>\<open>backend/docker_backend.go\<close>: the functions
  \<^verbatim>\<open>BuildRecipe\<close>, \<^verbatim>\<open>BuildStagingResponse\<close>, \<^verbatim>\<open>compilerDownloadURL\<close>,
  \<^verbatim>\<open>validateRequest\<close>, \<^verbatim>\<open>dockerTimeout\<close>, \<^verbatim>\<open>addDockerRegistryRules\<close>,
  \<^verbatim>\<open>buildDockerRegistryAddresses\<close>, \<^verbatim>\<open>getDockerRegistryServices\<close> and
  \<^verbatim>\<open>addDockerCachingArguments\<close>.

  Go's \<^verbatim>\<open>int\<close> is taken at 64 bits, \<^verbatim>\<open>int32\<close> and \<^verbatim>\<open>uint32\<close> at 32 bits and
  \<^verbatim>\<open>time.Duration\<close> is a signed 64-bit count of nanoseconds; conversions between them
  keep the low bits and multiplication wraps around. A Go \<^verbatim>\<open>error\<close> return is the
  left side of a sum. Calls to the logger have no effect on any returned value and are
  left out. The elements of the request's slices are taken to be non-nil. Where two
  structs have a field of the same name, the field of the later one carries a prefix.
\<close>

subsection \<open>Data\<close>

datatype error =
    ErrMissingAppId
  | ErrNoCompilerDefined
  | ErrMissingDockerImageUrl
  | ErrMissingDockerRegistry
  | ErrMissingDockerCredentials
  | ErrInvalidDockerRegistryAddress
  | NilPointerDereference
  | GoError string

text \<open>
  \<^verbatim>\<open>GoError\<close> carries the message of an error made by \<^verbatim>\<open>errors.New\<close> or
  \<^verbatim>\<open>fmt.Errorf\<close> in place, or returned by a library; \<^verbatim>\<open>NilPointerDereference\<close>
  is the run-time panic of \<^verbatim>\<open>*request.LifecycleData\<close> on a nil pointer.
\<close>

type_synonym go_int = "64 word"
type_synonym duration = "64 word"

record EnvironmentVariable =
  Name :: string
  Value :: string

record PortRange =
  Start :: "32 word"
  End :: "32 word"

record SecurityGroupRule =
  Protocol :: string
  Destinations :: "string list"
  Ports :: "32 word list"
  PortRange :: "PortRange option"

record StagingRequestFromCC =
  AppId :: string
  LogGuid :: string
  FileDescriptors :: go_int
  MemoryMB :: go_int
  DiskMB :: go_int
  Environment :: "EnvironmentVariable list"
  EgressRules :: "SecurityGroupRule list"
  Timeout :: go_int
  Lifecycle :: string
  LifecycleData :: "string option"

record DockerStagingData =
  DockerImageUrl :: string
  DockerLoginServer :: string
  DockerUser :: string
  DockerPassword :: string
  DockerEmail :: string

record consulServiceInfo =
  Address :: string

record StagingTaskAnnotation =
  annotation_Lifecycle :: string

text \<open>The fields of \<^verbatim>\<open>url.URL\<close> (the user information is left out).\<close>

record URL =
  Scheme :: string
  Opaque :: string
  Host :: string
  Path :: string
  RawQuery :: string
  Fragment :: string

text \<open>The actions of the recipe that the docker backend builds.\<close>

datatype action =
    DownloadAction (download_From: string) (download_To: string)
      (download_CacheKey: string) (download_User: string)
  | RunAction (run_Path: string) (run_Args: "string list")
      (run_Env: "EnvironmentVariable list") (run_Nofile: "64 word") (run_User: string)
  | EmitProgressAction action string string string
  | SerialAction "action list"
  | TimeoutAction action duration

text \<open>
  The fields of \<^verbatim>\<open>models.TaskDefinition\<close> that \<^verbatim>\<open>BuildRecipe\<close> sets; every
  other field keeps Go's zero value.
\<close>

record TaskDefinition =
  RootFs :: string
  ResultFile :: string
  Privileged :: bool
  MemoryMb :: "32 word"
  LogSource :: string
  task_LogGuid :: string
  task_EgressRules :: "SecurityGroupRule list"
  DiskMb :: "32 word"
  CompletionCallbackUrl :: string
  Annotation :: string
  Action :: action

record StagingError =
  error_Id :: string
  error_Message :: string

record TaskCallbackResponse =
  callback_Annotation :: string
  Failed :: bool
  FailureReason :: string
  Result :: string

record StagingDockerResult =
  ExecutionMetadata :: string
  DetectedStartCommand :: "(string \<times> string) list"
  DockerImage :: string

record StagingResponseForCC =
  response_Error :: "StagingError option"
  response_ExecutionMetadata :: string
  response_DetectedStartCommand :: "(string \<times> string) list"
  response_LifecycleData :: "string option"

text \<open>
  Modelled from the spec: the type \<^verbatim>\<open>backend.Config\<close> is not among the source
  files. The fields are those the docker backend and the tests read, and the three
  minima that the spec lists among the tunables (\<^verbatim>\<open>minMemoryMB\<close>, \<^verbatim>\<open>minDiskMB\<close>,
  \<^verbatim>\<open>minFileDescriptors\<close> of the command line).
\<close>

record Config =
  TaskDomain :: string
  StagerURL :: string
  FileServerURL :: string
  CCUploaderURL :: string
  Lifecycles :: "string \<rightharpoonup> string"
  DockerStagingStack :: string
  DockerRegistryAddress :: string
  InsecureDockerRegistry :: bool
  ConsulCluster :: string
  MinMemoryMB :: nat
  MinDiskMB :: nat
  MinFileDescriptors :: nat
  Sanitizer :: "string \<Rightarrow> StagingError"

subsection \<open>The libraries and the network\<close>

text \<open>
  The backend calls the Go standard library (\<^verbatim>\<open>encoding/json\<close>, \<^verbatim>\<open>net/url\<close>,
  \<^verbatim>\<open>net\<close>, \<^verbatim>\<open>net/http\<close>, \<^verbatim>\<open>io/ioutil\<close>), \<^verbatim>\<open>gunk/urljoiner\<close>, the routes of the
  file server and the stager's \<^verbatim>\<open>helpers\<close> package. None of them is part of the
  backend: they are the fields of an environment, and every theorem about the
  backend holds for any environment. An HTTP response is its status code together
  with the outcome of reading its body to the end.
\<close>

record http_Response =
  StatusCode :: nat
  Body :: "error + string"

record environment =
  json_Unmarshal_DockerStagingData :: "string \<Rightarrow> error + DockerStagingData"
  json_Marshal_StagingTaskAnnotation :: "StagingTaskAnnotation \<Rightarrow> error + string"
  json_Unmarshal_StagingTaskAnnotation :: "string \<Rightarrow> error + StagingTaskAnnotation"
  json_Unmarshal_consulServiceInfos :: "string \<Rightarrow> error + consulServiceInfo list"
  json_Unmarshal_StagingDockerResult :: "string \<Rightarrow> error + StagingDockerResult"
  url_Parse :: "string \<Rightarrow> error + URL"
  url_ParseRequestURI :: "string \<Rightarrow> error + URL"
  URL_String :: "URL \<Rightarrow> string"
  urljoiner_Join :: "string \<Rightarrow> string list \<Rightarrow> string"
  fileserver_StaticRoutePath :: "error + string"
  net_SplitHostPort :: "string \<Rightarrow> error + string \<times> string"
  http_Get :: "string \<Rightarrow> error + http_Response"
  helpers_BuildDockerStagingData :: "string \<Rightarrow> error + string"

subsection \<open>Constants\<close>

definition DockerLifecycleName :: string where
  "DockerLifecycleName = ''docker''"

definition DockerBuilderExecutablePath :: string where
  "DockerBuilderExecutablePath = ''/tmp/docker_app_lifecycle/builder''"

definition DockerBuilderOutputPath :: string where
  "DockerBuilderOutputPath = ''/tmp/docker-result/result.json''"

definition Second :: duration where
  "Second = 1000000000"

definition Minute :: duration where
  "Minute = 60 * Second"

text \<open>
  Modelled from the spec: \<^verbatim>\<open>DefaultStagingTimeout\<close> and \<^verbatim>\<open>TaskLogSource\<close> are
  not among the source files; the spec gives 15 minutes and \<^verbatim>\<open>"STG"\<close>.
\<close>

definition DefaultStagingTimeout :: duration where
  "DefaultStagingTimeout = 15 * Minute"

definition TaskLogSource :: string where
  "TaskLogSource = ''STG''"

text \<open>
  Modelled from the spec: \<^verbatim>\<open>Config.CallbackURL\<close> is not among the source
  files; the spec gives \<^verbatim>\<open>stager_url + "/v1/staging/" + g + "/completed"\<close>.
\<close>

definition CallbackURL :: "Config \<Rightarrow> string \<Rightarrow> string" where
  "CallbackURL config stagingGuid =
     StagerURL config @ ''/v1/staging/'' @ stagingGuid @ ''/completed''"

text \<open>\<^verbatim>\<open>models.PreloadedRootFS\<close> puts the scheme \<^verbatim>\<open>preloaded\<close> before the stack.\<close>

definition PreloadedRootFS :: "string \<Rightarrow> string" where
  "PreloadedRootFS stack = ''preloaded:'' @ stack"

text \<open>
  \<^verbatim>\<open>path.Dir(DockerBuilderExecutablePath)\<close>: the path up to its last slash, which
  the test of the download action expects as \<^verbatim>\<open>/tmp/docker_app_lifecycle\<close>.
\<close>

definition DockerBuilderDir :: string where
  "DockerBuilderDir = ''/tmp/docker_app_lifecycle''"

fun strings_Join :: "string list \<Rightarrow> string \<Rightarrow> string" where
  "strings_Join [] sep = ''''"
| "strings_Join [e] sep = e"
| "strings_Join (e # elems) sep = e @ sep @ strings_Join elems sep"

definition EmitProgressFor :: "action \<Rightarrow> string \<Rightarrow> string \<Rightarrow> string \<Rightarrow> action" where
  "EmitProgressFor a startMessage successMessage failureMessage =
     EmitProgressAction a startMessage successMessage failureMessage"

subsection \<open>The functions of the backend\<close>

text \<open>\<^verbatim>\<open>validateRequest\<close>: \<^verbatim>\<open>None\<close> is the \<^verbatim>\<open>nil\<close> error.\<close>

definition validateRequest :: "StagingRequestFromCC \<Rightarrow> DockerStagingData \<Rightarrow> error option" where
  "validateRequest stagingRequest dockerData =
     (if length (AppId stagingRequest) = 0 then Some ErrMissingAppId
      else if length (DockerImageUrl dockerData) = 0 then Some ErrMissingDockerImageUrl
      else
        let credentialsPresent =
              (length (DockerUser dockerData) + length (DockerPassword dockerData)
                 + length (DockerEmail dockerData)) > 0
        in if credentialsPresent \<and>
              (length (DockerUser dockerData) = 0 \<or> length (DockerPassword dockerData) = 0
                 \<or> length (DockerEmail dockerData) = 0)
           then Some ErrMissingDockerCredentials
           else None)"

text \<open>
  \<^verbatim>\<open>compilerDownloadURL\<close>: a key that the map of lifecycles does not have reads
  as the empty string. Where the code wraps the error of a library into a new message,
  the message of the library is left out.
\<close>

definition compilerDownloadURL :: "environment \<Rightarrow> Config \<Rightarrow> error + URL" where
  "compilerDownloadURL env config =
     (let lifecycleFilename = (case Lifecycles config ''docker'' of None \<Rightarrow> '''' | Some v \<Rightarrow> v)
      in if lifecycleFilename = '''' then Inl ErrNoCompilerDefined
         else
           (case url_Parse env lifecycleFilename of
              Inl err \<Rightarrow> Inl (GoError ''couldn't parse compiler URL'')
            | Inr parsed \<Rightarrow>
                if Scheme parsed = ''http'' \<or> Scheme parsed = ''https'' then Inr parsed
                else if Scheme parsed \<noteq> '''' then
                  Inl (GoError (''unknown scheme: '' @ [CHR 0x27] @ Scheme parsed @ [CHR 0x27]))
                else
                  (case fileserver_StaticRoutePath env of
                     Inl err \<Rightarrow> Inl (GoError ''couldn't generate the compiler download path'')
                   | Inr staticPath \<Rightarrow>
                       (let urlString =
                              urljoiner_Join env (FileServerURL config)
                                [staticPath, lifecycleFilename]
                        in (case url_ParseRequestURI env urlString of
                              Inl err \<Rightarrow> Inl (GoError ''failed to parse compiler download URL'')
                            | Inr url \<Rightarrow> Inr url)))))"

definition dockerTimeout :: "StagingRequestFromCC \<Rightarrow> duration" where
  "dockerTimeout request =
     (if 0 <s Timeout request then Timeout request * Second else DefaultStagingTimeout)"

text \<open>\<^verbatim>\<open>models.TCPProtocol\<close>, the name of the protocol in a security group rule.\<close>

definition TCPProtocol :: string where
  "TCPProtocol = ''tcp''"

definition registryRule :: "consulServiceInfo \<Rightarrow> SecurityGroupRule" where
  "registryRule registry =
     \<lparr>Protocol = TCPProtocol, Destinations = [Address registry], Ports = [8080],
      PortRange = None\<rparr>"

fun addDockerRegistryRules ::
  "SecurityGroupRule list \<Rightarrow> consulServiceInfo list \<Rightarrow> SecurityGroupRule list" where
  "addDockerRegistryRules egressRules [] = egressRules"
| "addDockerRegistryRules egressRules (registry # registries) =
     addDockerRegistryRules (egressRules @ [registryRule registry]) registries"

fun buildDockerRegistryAddresses_loop :: "string list \<Rightarrow> consulServiceInfo list \<Rightarrow> string list" where
  "buildDockerRegistryAddresses_loop registries [] = registries"
| "buildDockerRegistryAddresses_loop registries (service # services) =
     buildDockerRegistryAddresses_loop (registries @ [Address service]) services"

definition buildDockerRegistryAddresses :: "consulServiceInfo list \<Rightarrow> string list" where
  "buildDockerRegistryAddresses services = buildDockerRegistryAddresses_loop [] services"

text \<open>
  \<^verbatim>\<open>getDockerRegistryServices\<close> returns its result together with the URLs it has
  sent a GET request to. The status code of the response is not read.
\<close>

definition getDockerRegistryServices ::
  "environment \<Rightarrow> string \<Rightarrow> (error + consulServiceInfo list) \<times> string list" where
  "getDockerRegistryServices env consulCluster =
     (let target = consulCluster @ ''/v1/catalog/service/docker-registry''
      in (case http_Get env target of
            Inl err \<Rightarrow> Inl err
          | Inr response \<Rightarrow>
              (case Body response of
                 Inl err \<Rightarrow> Inl err
               | Inr body \<Rightarrow>
                   (case json_Unmarshal_consulServiceInfos env body of
                      Inl err \<Rightarrow> Inl err
                    | Inr ips \<Rightarrow>
                        if length ips = 0 then Inl ErrMissingDockerRegistry else Inr ips)),
          [target]))"

definition addDockerCachingArguments ::
  "string list \<Rightarrow> string \<Rightarrow> bool \<Rightarrow> string \<Rightarrow> string \<Rightarrow> DockerStagingData
     \<Rightarrow> error + string list" where
  "addDockerCachingArguments args registryIPs insecureRegistry host port stagingData =
     (let args = args @ [''-cacheDockerImage''];
          args = args @ [''-dockerRegistryHost'', host];
          args = args @ [''-dockerRegistryPort'', port];
          args = args @ [''-dockerRegistryIPs'', registryIPs];
          args = (if insecureRegistry
                  then args @ [''-insecureDockerRegistries'', host @ '':'' @ port]
                  else args);
          args = (if length (DockerLoginServer stagingData) > 0
                  then args @ [''-dockerLoginServer'', DockerLoginServer stagingData]
                  else args);
          args = (if length (DockerUser stagingData) > 0
                  then args @ [''-dockerUser'', DockerUser stagingData,
                               ''-dockerPassword'', DockerPassword stagingData,
                               ''-dockerEmail'', DockerEmail stagingData]
                  else args)
      in Inr args)"

text \<open>The loop over the environment of the request, which stops at the first match.\<close>

fun cacheDockerImage :: "EnvironmentVariable list \<Rightarrow> bool" where
  "cacheDockerImage [] = False"
| "cacheDockerImage (envVar # rest) =
     (if Name envVar = ''DIEGO_DOCKER_CACHE'' \<and> Value envVar = ''true'' then True
      else cacheDockerImage rest)"

text \<open>
  The end of \<^verbatim>\<open>BuildRecipe\<close>, from \<^verbatim>\<open>fileDescriptorLimit\<close> on: the run action is
  appended to the download action and the task definition is filled in. The request is
  the one whose egress rules the caching branch may have extended. An error of
  \<^verbatim>\<open>json.Marshal\<close> is dropped by the code, which leaves the annotation empty.
\<close>

definition assembleTaskDefinition ::
  "environment \<Rightarrow> Config \<Rightarrow> string \<Rightarrow> StagingRequestFromCC \<Rightarrow> URL \<Rightarrow> string list \<Rightarrow> string
     \<Rightarrow> TaskDefinition" where
  "assembleTaskDefinition env config stagingGuid request compilerURL runActionArguments runAs =
     (let actions =
            [EmitProgressFor
               (DownloadAction (URL_String env compilerURL) DockerBuilderDir
                  ''docker-lifecycle'' ''vcap'')
               '''' '''' ''Failed to set up docker environment''];
          fileDescriptorLimit = FileDescriptors request;
          actions = actions @
            [EmitProgressFor
               (RunAction DockerBuilderExecutablePath runActionArguments (Environment request)
                  fileDescriptorLimit runAs)
               ''Staging...'' ''Staging Complete'' ''Staging Failed''];
          annotationJson =
            (case json_Marshal_StagingTaskAnnotation env
                    \<lparr>annotation_Lifecycle = DockerLifecycleName\<rparr> of
               Inl err \<Rightarrow> ''''
             | Inr bytes \<Rightarrow> bytes)
      in \<lparr>RootFs = PreloadedRootFS (DockerStagingStack config),
          ResultFile = DockerBuilderOutputPath,
          Privileged = True,
          MemoryMb = ucast (MemoryMB request),
          LogSource = TaskLogSource,
          task_LogGuid = LogGuid request,
          task_EgressRules = EgressRules request,
          DiskMb = ucast (DiskMB request),
          CompletionCallbackUrl = CallbackURL config stagingGuid,
          Annotation = annotationJson,
          Action = TimeoutAction (SerialAction actions) (dockerTimeout request)\<rparr>)"

text \<open>
  \<^verbatim>\<open>BuildRecipe\<close> returns the task definition, the staging guid and the task domain,
  or an error, together with the URLs it has sent a GET request to.
\<close>

definition BuildRecipe ::
  "environment \<Rightarrow> Config \<Rightarrow> string \<Rightarrow> StagingRequestFromCC
     \<Rightarrow> (error + TaskDefinition \<times> string \<times> string) \<times> string list" where
  "BuildRecipe env config stagingGuid request =
     (case LifecycleData request of
        None \<Rightarrow> (Inl NilPointerDereference, [])
      | Some raw \<Rightarrow>
     (case json_Unmarshal_DockerStagingData env raw of
        Inl err \<Rightarrow> (Inl err, [])
      | Inr lifecycleData \<Rightarrow>
     (case validateRequest request lifecycleData of
        Some err \<Rightarrow> (Inl err, [])
      | None \<Rightarrow>
     (case compilerDownloadURL env config of
        Inl err \<Rightarrow> (Inl err, [])
      | Inr compilerURL \<Rightarrow>
     (let runActionArguments =
            [''-outputMetadataJSONFilename'', DockerBuilderOutputPath,
             ''-dockerRef'', DockerImageUrl lifecycleData]
      in if cacheDockerImage (Environment request) then
           (case net_SplitHostPort env (DockerRegistryAddress config) of
              Inl err \<Rightarrow> (Inl ErrInvalidDockerRegistryAddress, [])
            | Inr (host, port) \<Rightarrow>
           (case getDockerRegistryServices env (ConsulCluster config) of
              (Inl err, gets) \<Rightarrow> (Inl err, gets)
            | (Inr registryServices, gets) \<Rightarrow>
           (let registryRules = addDockerRegistryRules (EgressRules request) registryServices;
                request = request\<lparr>EgressRules := EgressRules request @ registryRules\<rparr>;
                registryIPs =
                  strings_Join (buildDockerRegistryAddresses registryServices) '',''
            in case addDockerCachingArguments runActionArguments registryIPs
                      (InsecureDockerRegistry config) host port lifecycleData of
                 Inl err \<Rightarrow> (Inl err, gets)
               | Inr runActionArguments \<Rightarrow>
                   (Inr (assembleTaskDefinition env config stagingGuid request compilerURL
                           runActionArguments ''root'',
                         stagingGuid, TaskDomain config), gets))))
         else
           (Inr (assembleTaskDefinition env config stagingGuid request compilerURL
                   runActionArguments ''vcap'',
                 stagingGuid, TaskDomain config), []))))))"

text \<open>
  \<^verbatim>\<open>BuildStagingResponse\<close>: the annotation is decoded first and the decoded value is
  not read afterwards.
\<close>

definition BuildStagingResponse ::
  "environment \<Rightarrow> Config \<Rightarrow> TaskCallbackResponse \<Rightarrow> error + StagingResponseForCC" where
  "BuildStagingResponse env config taskResponse =
     (let response = \<lparr>response_Error = None, response_ExecutionMetadata = '''',
                       response_DetectedStartCommand = [], response_LifecycleData = None\<rparr>
      in (case json_Unmarshal_StagingTaskAnnotation env (callback_Annotation taskResponse) of
            Inl err \<Rightarrow> Inl err
          | Inr annotation \<Rightarrow>
              if Failed taskResponse then
                Inr (response\<lparr>response_Error :=
                       Some (Sanitizer config (FailureReason taskResponse))\<rparr>)
              else
                (case json_Unmarshal_StagingDockerResult env (Result taskResponse) of
                   Inl err \<Rightarrow> Inl err
                 | Inr result \<Rightarrow>
                     (case helpers_BuildDockerStagingData env (DockerImage result) of
                        Inl err \<Rightarrow> Inl err
                      | Inr dockerLifecycleData \<Rightarrow>
                          Inr (response\<lparr>
                            response_ExecutionMetadata := ExecutionMetadata result,
                            response_DetectedStartCommand := DetectedStartCommand result,
                            response_LifecycleData := Some dockerLifecycleData\<rparr>)))))"

subsection \<open>The dispatch on the annotation\<close>

text \<open>
  Modelled from the spec: the staging outbox is not among the source files. The spec
  says that it reads \<^verbatim>\<open>annotation.lifecycle\<close> of a completion callback and dispatches
  to the matching backend's response builder, \<^verbatim>\<open>"buildpack"\<close> or \<^verbatim>\<open>"docker"\<close>, and
  that it rejects an annotation it cannot parse or a lifecycle it does not know.
\<close>

datatype backend = BuildpackBackend | DockerBackend

definition backendForLifecycle :: "string \<Rightarrow> backend option" where
  "backendForLifecycle lifecycle =
     (if lifecycle = ''buildpack'' then Some BuildpackBackend
      else if lifecycle = ''docker'' then Some DockerBackend
      else None)"

definition outboxDispatch :: "environment \<Rightarrow> TaskCallbackResponse \<Rightarrow> backend option" where
  "outboxDispatch env taskResponse =
     (case json_Unmarshal_StagingTaskAnnotation env (callback_Annotation taskResponse) of
        Inl err \<Rightarrow> None
      | Inr annotation \<Rightarrow> backendForLifecycle (annotation_Lifecycle annotation))"

section \<open>Reading a recipe\<close>

text \<open>
  The run action of a recipe, as the tests read it: the action under the progress
  wrapper that is second in the series under the timeout. The timeout is that of the
  root action.
\<close>

definition recipeRunAction :: "TaskDefinition \<Rightarrow> action option" where
  "recipeRunAction td =
     (case Action td of
        TimeoutAction (SerialAction [download, EmitProgressAction run a b c]) t \<Rightarrow> Some run
      | _ \<Rightarrow> None)"

definition recipeTimeout :: "TaskDefinition \<Rightarrow> duration option" where
  "recipeTimeout td =
     (case Action td of
        TimeoutAction (SerialAction actions) t \<Rightarrow> Some t
      | _ \<Rightarrow> None)"

text \<open>
  Words for the credentials of the lifecycle data, some of the three or all of them,
  and for a request that opts in for image caching.
\<close>

definition someCredentials :: "DockerStagingData \<Rightarrow> bool" where
  "someCredentials d = (DockerUser d \<noteq> '''' \<or> DockerPassword d \<noteq> '''' \<or> DockerEmail d \<noteq> '''')"

definition allCredentials :: "DockerStagingData \<Rightarrow> bool" where
  "allCredentials d = (DockerUser d \<noteq> '''' \<and> DockerPassword d \<noteq> '''' \<and> DockerEmail d \<noteq> '''')"

definition cachingRequested :: "StagingRequestFromCC \<Rightarrow> bool" where
  "cachingRequested request =
     list_ex (\<lambda>v. Name v = ''DIEGO_DOCKER_CACHE'' \<and> Value v = ''true'') (Environment request)"

section \<open>A reference environment\<close>

text \<open>
  An executable environment, to run the backend on concrete requests. It follows the
  libraries on a fragment of their inputs and reports everything else as an error:
  JSON texts with strings in printable ASCII without \<^verbatim>\<open>\u\<close> escapes and without
  numbers; URLs and addresses without percent escapes, user information or brackets.
  The theorems about the backend do not depend on it.
\<close>

subsection \<open>JSON texts\<close>

datatype json =
    JNull
  | JBool bool
  | JString string
  | JArray "json list"
  | JObject "(string \<times> json) list"

definition is_space :: "char \<Rightarrow> bool" where
  "is_space c = (c = CHR '' '' \<or> c = CHR 0x09 \<or> c = CHR 0x0A \<or> c = CHR 0x0D)"

fun skip_space :: "string \<Rightarrow> string" where
  "skip_space [] = []"
| "skip_space (c # cs) = (if is_space c then skip_space cs else c # cs)"

definition is_plain :: "char \<Rightarrow> bool" where
  "is_plain c = (32 \<le> (of_char c :: nat) \<and> (of_char c :: nat) < 127)"

text \<open>
  The characters of a string literal after its opening quote, up to the closing quote,
  and the text that follows.
\<close>

fun scan_string :: "string \<Rightarrow> (string \<times> string) option" where
  "scan_string [] = None"
| "scan_string (c # cs) =
     (if c = CHR 0x22 then Some ([], cs)
      else if c = CHR 0x5C then
        (case cs of
           [] \<Rightarrow> None
         | e # rest \<Rightarrow>
             if e = CHR 0x22 \<or> e = CHR 0x5C \<or> e = CHR ''/''
             then map_option (\<lambda>(s, r). (e # s, r)) (scan_string rest)
             else None)
      else if is_plain c then map_option (\<lambda>(s, r). (c # s, r)) (scan_string cs)
      else None)"

text \<open>The first argument bounds the number of nested calls.\<close>

fun scan_value :: "nat \<Rightarrow> string \<Rightarrow> (json \<times> string) option"
  and scan_elements :: "nat \<Rightarrow> string \<Rightarrow> (json list \<times> string) option"
  and scan_members :: "nat \<Rightarrow> string \<Rightarrow> ((string \<times> json) list \<times> string) option" where
  "scan_value 0 cs = None"
| "scan_value (Suc n) cs =
     (case skip_space cs of
        [] \<Rightarrow> None
      | c # r \<Rightarrow>
          if c = CHR 0x22 then map_option (\<lambda>(s, r1). (JString s, r1)) (scan_string r)
          else if c = CHR 0x7B then
            (case skip_space r of
               [] \<Rightarrow> None
             | c1 # r1 \<Rightarrow>
                 if c1 = CHR 0x7D then Some (JObject [], r1)
                 else map_option (\<lambda>(ms, r2). (JObject ms, r2)) (scan_members n (c1 # r1)))
          else if c = CHR 0x5B then
            (case skip_space r of
               [] \<Rightarrow> None
             | c1 # r1 \<Rightarrow>
                 if c1 = CHR 0x5D then Some (JArray [], r1)
                 else map_option (\<lambda>(vs, r2). (JArray vs, r2)) (scan_elements n (c1 # r1)))
          else if take 4 (c # r) = ''null'' then Some (JNull, drop 3 r)
          else if take 4 (c # r) = ''true'' then Some (JBool True, drop 3 r)
          else if take 5 (c # r) = ''false'' then Some (JBool False, drop 4 r)
          else None)"
| "scan_elements 0 cs = None"
| "scan_elements (Suc n) cs =
     (case scan_value n cs of
        None \<Rightarrow> None
      | Some (v, r) \<Rightarrow>
          (case skip_space r of
             [] \<Rightarrow> None
           | c # r1 \<Rightarrow>
               if c = CHR '','' then map_option (\<lambda>(vs, r2). (v # vs, r2)) (scan_elements n r1)
               else if c = CHR 0x5D then Some ([v], r1)
               else None))"
| "scan_members 0 cs = None"
| "scan_members (Suc n) cs =
     (case skip_space cs of
        [] \<Rightarrow> None
      | c # r \<Rightarrow>
          if c \<noteq> CHR 0x22 then None
          else
            (case scan_string r of
               None \<Rightarrow> None
             | Some (k, r1) \<Rightarrow>
                 (case skip_space r1 of
                    [] \<Rightarrow> None
                  | c1 # r2 \<Rightarrow>
                      if c1 \<noteq> CHR '':'' then None
                      else
                        (case scan_value n r2 of
                           None \<Rightarrow> None
                         | Some (v, r3) \<Rightarrow>
                             (case skip_space r3 of
                                [] \<Rightarrow> None
                              | c3 # r4 \<Rightarrow>
                                  if c3 = CHR '','' then
                                    map_option (\<lambda>(ms, r5). ((k, v) # ms, r5))
                                      (scan_members n r4)
                                  else if c3 = CHR 0x7D then Some ([(k, v)], r4)
                                  else None)))))"

definition json_parse :: "string \<Rightarrow> json option" where
  "json_parse s =
     (case scan_value (Suc (length s)) s of
        None \<Rightarrow> None
      | Some (v, r) \<Rightarrow> if skip_space r = [] then Some v else None)"

text \<open>
  Decoding into a struct: a key selects a field whatever the case of its letters, a
  later member overrides an earlier one, \<^verbatim>\<open>null\<close> leaves the field as it is, an
  unknown key is skipped and a value of another type is an error.
\<close>

definition fold_case :: "string \<Rightarrow> string" where
  "fold_case s =
     map (\<lambda>c. case map_of (zip ''ABCDEFGHIJKLMNOPQRSTUVWXYZ'' ''abcdefghijklmnopqrstuvwxyz'') c of
                 None \<Rightarrow> c | Some l \<Rightarrow> l) s"

fun string_field :: "string \<Rightarrow> (string \<times> json) list \<Rightarrow> string \<Rightarrow> string option" where
  "string_field name [] current = Some current"
| "string_field name ((k, v) # ms) current =
     (if fold_case k = name then
        (case v of
           JString s \<Rightarrow> string_field name ms s
         | JNull \<Rightarrow> string_field name ms current
         | _ \<Rightarrow> None)
      else string_field name ms current)"

fun string_map :: "(string \<times> json) list \<Rightarrow> (string \<times> string) list option" where
  "string_map [] = Some []"
| "string_map ((k, v) # ms) =
     (case v of
        JString s \<Rightarrow> map_option (\<lambda>rest. (k, s) # rest) (string_map ms)
      | _ \<Rightarrow> None)"

fun string_map_field ::
  "string \<Rightarrow> (string \<times> json) list \<Rightarrow> (string \<times> string) list \<Rightarrow> (string \<times> string) list option" where
  "string_map_field name [] current = Some current"
| "string_map_field name ((k, v) # ms) current =
     (if fold_case k = name then
        (case v of
           JObject entries \<Rightarrow>
             (case string_map entries of
                None \<Rightarrow> None
              | Some m \<Rightarrow> string_map_field name ms m)
         | JNull \<Rightarrow> string_map_field name ms current
         | _ \<Rightarrow> None)
      else string_map_field name ms current)"

definition syntax_error :: error where
  "syntax_error = GoError ''json: syntax error''"

definition type_error :: error where
  "type_error = GoError ''json: cannot unmarshal''"

text \<open>
  Modelled from the spec: the struct \<^verbatim>\<open>cc_messages.DockerStagingData\<close> is not among
  the source files; the keys are the names that the spec gives to the fields
  of the docker lifecycle data.
\<close>

definition decode_DockerStagingData :: "string \<Rightarrow> error + DockerStagingData" where
  "decode_DockerStagingData raw =
     (case json_parse raw of
        None \<Rightarrow> Inl syntax_error
      | Some JNull \<Rightarrow>
          Inr \<lparr>DockerImageUrl = '''', DockerLoginServer = '''', DockerUser = '''',
               DockerPassword = '''', DockerEmail = ''''\<rparr>
      | Some (JObject ms) \<Rightarrow>
          (case (string_field ''docker_image_url'' ms '''',
                 string_field ''docker_login_server'' ms '''',
                 string_field ''docker_user'' ms '''',
                 string_field ''docker_password'' ms '''',
                 string_field ''docker_email'' ms '''') of
             (Some img, Some server, Some usr, Some password, Some email) \<Rightarrow>
               Inr \<lparr>DockerImageUrl = img, DockerLoginServer = server, DockerUser = usr,
                    DockerPassword = password, DockerEmail = email\<rparr>
           | _ \<Rightarrow> Inl type_error)
      | Some _ \<Rightarrow> Inl type_error)"

definition decode_StagingTaskAnnotation :: "string \<Rightarrow> error + StagingTaskAnnotation" where
  "decode_StagingTaskAnnotation raw =
     (case json_parse raw of
        None \<Rightarrow> Inl syntax_error
      | Some JNull \<Rightarrow> Inr \<lparr>annotation_Lifecycle = ''''\<rparr>
      | Some (JObject ms) \<Rightarrow>
          (case string_field ''lifecycle'' ms '''' of
             Some lifecycle \<Rightarrow> Inr \<lparr>annotation_Lifecycle = lifecycle\<rparr>
           | None \<Rightarrow> Inl type_error)
      | Some _ \<Rightarrow> Inl type_error)"

text \<open>A string in printable ASCII that needs no escape is written between quotes.\<close>

definition needs_no_escape :: "char \<Rightarrow> bool" where
  "needs_no_escape c =
     (is_plain c \<and> c \<noteq> CHR 0x22 \<and> c \<noteq> CHR 0x5C \<and> c \<noteq> CHR ''<'' \<and> c \<noteq> CHR ''>''
        \<and> c \<noteq> CHR ''&'')"

definition encode_StagingTaskAnnotation :: "StagingTaskAnnotation \<Rightarrow> error + string" where
  "encode_StagingTaskAnnotation annotation =
     (if list_all needs_no_escape (annotation_Lifecycle annotation)
      then Inr ([CHR 0x7B, CHR 0x22] @ ''lifecycle'' @ [CHR 0x22, CHR '':'', CHR 0x22]
                  @ annotation_Lifecycle annotation @ [CHR 0x22, CHR 0x7D])
      else Inl (GoError ''json: outside the fragment''))"

fun decode_consulServiceInfo_list :: "json list \<Rightarrow> consulServiceInfo list option" where
  "decode_consulServiceInfo_list [] = Some []"
| "decode_consulServiceInfo_list (v # vs) =
     (case (case v of
              JNull \<Rightarrow> Some \<lparr>Address = ''''\<rparr>
            | JObject ms \<Rightarrow> map_option (\<lambda>a. \<lparr>Address = a\<rparr>) (string_field ''address'' ms '''')
            | _ \<Rightarrow> None) of
        None \<Rightarrow> None
      | Some info \<Rightarrow> map_option (\<lambda>rest. info # rest) (decode_consulServiceInfo_list vs))"

definition decode_consulServiceInfos :: "string \<Rightarrow> error + consulServiceInfo list" where
  "decode_consulServiceInfos raw =
     (case json_parse raw of
        None \<Rightarrow> Inl syntax_error
      | Some JNull \<Rightarrow> Inr []
      | Some (JArray vs) \<Rightarrow>
          (case decode_consulServiceInfo_list vs of
             None \<Rightarrow> Inl type_error
           | Some infos \<Rightarrow> Inr infos)
      | Some _ \<Rightarrow> Inl type_error)"

text \<open>
  Modelled from the spec: the struct \<^verbatim>\<open>docker_app_lifecycle.StagingDockerResult\<close>
  is not among the source files; the spec gives its three keys.
\<close>

definition decode_StagingDockerResult :: "string \<Rightarrow> error + StagingDockerResult" where
  "decode_StagingDockerResult raw =
     (case json_parse raw of
        None \<Rightarrow> Inl syntax_error
      | Some JNull \<Rightarrow>
          Inr \<lparr>ExecutionMetadata = '''', DetectedStartCommand = [], DockerImage = ''''\<rparr>
      | Some (JObject ms) \<Rightarrow>
          (case (string_field ''execution_metadata'' ms '''',
                 string_map_field ''detected_start_command'' ms [],
                 string_field ''docker_image'' ms '''') of
             (Some metadata, Some command, Some img) \<Rightarrow>
               Inr \<lparr>ExecutionMetadata = metadata, DetectedStartCommand = command,
                    DockerImage = img\<rparr>
           | _ \<Rightarrow> Inl type_error)
      | Some _ \<Rightarrow> Inl type_error)"

text \<open>
  Modelled from the spec: \<^verbatim>\<open>helpers.BuildDockerStagingData\<close> is not among the source
  files; the spec says that the lifecycle data of the response is built from the docker
  image of the result.
\<close>

definition encode_docker_image :: "string \<Rightarrow> error + string" where
  "encode_docker_image img =
     (if list_all needs_no_escape img
      then Inr ([CHR 0x7B, CHR 0x22] @ ''docker_image'' @ [CHR 0x22, CHR '':'', CHR 0x22]
                  @ img @ [CHR 0x22, CHR 0x7D])
      else Inl (GoError ''json: outside the fragment''))"

subsection \<open>URLs and addresses\<close>

definition is_letter :: "char \<Rightarrow> bool" where
  "is_letter c =
     ((65 \<le> (of_char c :: nat) \<and> (of_char c :: nat) \<le> 90)
        \<or> (97 \<le> (of_char c :: nat) \<and> (of_char c :: nat) \<le> 122))"

definition is_digit :: "char \<Rightarrow> bool" where
  "is_digit c = (48 \<le> (of_char c :: nat) \<and> (of_char c :: nat) \<le> 57)"

definition unsupported :: error where
  "unsupported = GoError ''outside the fragment''"

text \<open>
  \<^verbatim>\<open>getscheme\<close> of \<^verbatim>\<open>net/url\<close>: the letters, digits and signs before the first
  colon, when they start with a letter; no scheme when another character comes first.
\<close>

fun getscheme_loop :: "string \<Rightarrow> string \<Rightarrow> string \<Rightarrow> error + string \<times> string" where
  "getscheme_loop seen [] rawurl = Inr ('''', rawurl)"
| "getscheme_loop seen (c # cs) rawurl =
     (if is_letter c then getscheme_loop (seen @ [c]) cs rawurl
      else if is_digit c \<or> c = CHR ''+'' \<or> c = CHR ''-'' \<or> c = CHR ''.'' then
        (if seen = [] then Inr ('''', rawurl) else getscheme_loop (seen @ [c]) cs rawurl)
      else if c = CHR '':'' then
        (if seen = [] then Inl (GoError ''missing protocol scheme'') else Inr (seen, cs))
      else Inr ('''', rawurl))"

definition getscheme :: "string \<Rightarrow> error + string \<times> string" where
  "getscheme rawurl = getscheme_loop [] rawurl rawurl"

definition before :: "char \<Rightarrow> string \<Rightarrow> string" where
  "before c s = takeWhile (\<lambda>x. x \<noteq> c) s"

definition from_char :: "char \<Rightarrow> string \<Rightarrow> string" where
  "from_char c s = dropWhile (\<lambda>x. x \<noteq> c) s"

definition empty_URL :: URL where
  "empty_URL = \<lparr>Scheme = '''', Opaque = '''', Host = '''', Path = '''', RawQuery = '''',
                 Fragment = ''''\<rparr>"

text \<open>\<^verbatim>\<open>parse\<close> of \<^verbatim>\<open>net/url\<close>, the second argument being \<^verbatim>\<open>viaRequest\<close>.\<close>

definition parse :: "string \<Rightarrow> bool \<Rightarrow> error + URL" where
  "parse rawurl viaRequest =
     (if rawurl = '''' \<and> viaRequest then Inl (GoError ''empty url'')
      else if rawurl = ''*'' then Inr (empty_URL\<lparr>Path := ''*''\<rparr>)
      else
        (case getscheme rawurl of
           Inl err \<Rightarrow> Inl err
         | Inr (scheme, afterScheme) \<Rightarrow>
             (let url = empty_URL\<lparr>Scheme := fold_case scheme,
                                   RawQuery := drop 1 (from_char (CHR ''?'') afterScheme)\<rparr>;
                  rest = before (CHR ''?'') afterScheme
              in if take 1 rest \<noteq> ''/'' \<and> Scheme url \<noteq> '''' then Inr (url\<lparr>Opaque := rest\<rparr>)
                 else if take 1 rest \<noteq> ''/'' \<and> viaRequest then
                   Inl (GoError ''invalid URI for request'')
                 else if take 1 rest \<noteq> ''/'' \<and> CHR '':'' \<in> set (before (CHR ''/'') rest) then
                   Inl unsupported
                 else if (Scheme url \<noteq> '''' \<or> (\<not> viaRequest \<and> take 3 rest \<noteq> ''///''))
                           \<and> take 2 rest = ''//'' then
                   (let authority = before (CHR ''/'') (drop 2 rest);
                        path = from_char (CHR ''/'') (drop 2 rest)
                    in if CHR ''@'' \<in> set authority \<or> CHR ''%'' \<in> set authority
                            \<or> CHR 0x5B \<in> set authority \<or> CHR ''%'' \<in> set path
                       then Inl unsupported
                       else Inr (url\<lparr>Host := authority, Path := path\<rparr>))
                 else if CHR ''%'' \<in> set rest then Inl unsupported
                 else Inr (url\<lparr>Path := rest\<rparr>))))"

definition parse_URL :: "string \<Rightarrow> error + URL" where
  "parse_URL rawurl =
     (case parse (before (CHR ''#'') rawurl) False of
        Inl err \<Rightarrow> Inl err
      | Inr url \<Rightarrow>
          (let frag = drop 1 (from_char (CHR ''#'') rawurl)
           in if CHR ''%'' \<in> set frag then Inl unsupported
              else Inr (url\<lparr>Fragment := frag\<rparr>)))"

definition parse_request_URI :: "string \<Rightarrow> error + URL" where
  "parse_request_URI rawurl = parse rawurl True"

text \<open>
  \<^verbatim>\<open>URL.String\<close>: a character of the path or of the fragment that is not a letter, a
  digit or one of the listed signs is written as a percent sign and two hexadecimal
  digits.
\<close>

definition escape_char :: "string \<Rightarrow> char \<Rightarrow> string" where
  "escape_char keep c =
     (if is_letter c \<or> is_digit c \<or> c \<in> set keep then [c]
      else [CHR ''%'', ''0123456789ABCDEF'' ! ((of_char c :: nat) div 16),
            ''0123456789ABCDEF'' ! ((of_char c :: nat) mod 16)])"

definition escape :: "string \<Rightarrow> string \<Rightarrow> string" where
  "escape keep s = concat (map (escape_char keep) s)"

definition string_of_URL :: "URL \<Rightarrow> string" where
  "string_of_URL u =
     (if Scheme u \<noteq> '''' then Scheme u @ '':'' else '''')
     @ (if Opaque u \<noteq> '''' then Opaque u
        else
          (if Scheme u \<noteq> '''' \<or> Host u \<noteq> '''' then ''//'' @ Host u else '''')
          @ (if Path u \<noteq> '''' \<and> take 1 (Path u) \<noteq> ''/'' \<and> Host u \<noteq> '''' then ''/'' else '''')
          @ escape ''-_.~$&+,/:;=@'' (Path u))
     @ (if RawQuery u \<noteq> '''' then ''?'' @ RawQuery u else '''')
     @ (if Fragment u \<noteq> '''' then ''#'' @ escape ''-_.~$&+,/:;=?@'' (Fragment u) else '''')"

text \<open>
  \<^verbatim>\<open>urljoiner.Join\<close>: the parts with one slash between them, which is what the tests
  of both backends expect of it.
\<close>

fun join_parts :: "string \<Rightarrow> string list \<Rightarrow> string" where
  "join_parts url [] = url"
| "join_parts url (p # ps) =
     join_parts (rev (dropWhile (\<lambda>c. c = CHR ''/'') (rev url)) @ ''/''
                   @ dropWhile (\<lambda>c. c = CHR ''/'') p) ps"

text \<open>\<^verbatim>\<open>net.SplitHostPort\<close> on an address without brackets: the port follows the last colon.\<close>

definition split_host_port :: "string \<Rightarrow> error + string \<times> string" where
  "split_host_port hostport =
     (if CHR '':'' \<notin> set hostport then Inl (GoError ''missing port in address'')
      else if CHR 0x5B \<in> set hostport \<or> CHR 0x5D \<in> set hostport
                \<or> CHR ''%'' \<in> set hostport then Inl unsupported
      else
        (let port = rev (before (CHR '':'') (rev hostport));
             host = rev (drop 1 (from_char (CHR '':'') (rev hostport)))
         in if CHR '':'' \<in> set host then Inl (GoError ''too many colons in address'')
            else Inr (host, port)))"

subsection \<open>The environment\<close>

text \<open>
  The reference environment over a network, which maps the URL of a GET request to
  its outcome. The static route of the file server is the literal of the spec.
\<close>

definition reference_environment :: "(string \<Rightarrow> error + http_Response) \<Rightarrow> environment" where
  "reference_environment network =
     \<lparr>json_Unmarshal_DockerStagingData = decode_DockerStagingData,
      json_Marshal_StagingTaskAnnotation = encode_StagingTaskAnnotation,
      json_Unmarshal_StagingTaskAnnotation = decode_StagingTaskAnnotation,
      json_Unmarshal_consulServiceInfos = decode_consulServiceInfos,
      json_Unmarshal_StagingDockerResult = decode_StagingDockerResult,
      url_Parse = parse_URL,
      url_ParseRequestURI = parse_request_URI,
      URL_String = string_of_URL,
      urljoiner_Join = join_parts,
      fileserver_StaticRoutePath = Inr ''/v1/static/'',
      net_SplitHostPort = split_host_port,
      http_Get = network,
      helpers_BuildDockerStagingData = encode_docker_image\<rparr>"

section \<open>The fixtures of the tests\<close>

text \<open>
  The configuration, the consul server and the staging request of
  \<^verbatim>\<open>backend/docker_registry_test.go\<close>. The consul server of the test listens on a
  local port that the test picks; here it has a fixed name. The sanitizer is the one
  of the buildpack backend's test.
\<close>

definition test_sanitizer :: "string \<Rightarrow> StagingError" where
  "test_sanitizer msg = \<lparr>error_Id = [], error_Message = msg @ '' was totally sanitized''\<rparr>"

definition test_config :: Config where
  "test_config =
     \<lparr>TaskDomain = '''',
      StagerURL = '''',
      FileServerURL = ''http://file-server.com'',
      CCUploaderURL = ''http://cc-uploader.com'',
      Lifecycles = [''docker'' \<mapsto> ''docker_lifecycle/docker_app_lifecycle.tgz''],
      DockerStagingStack = '''',
      DockerRegistryAddress = ''docker-registry.service.cf.internal:8080'',
      InsecureDockerRegistry = False,
      ConsulCluster = ''http://consul.test'',
      MinMemoryMB = 0,
      MinDiskMB = 0,
      MinFileDescriptors = 0,
      Sanitizer = test_sanitizer\<rparr>"

definition consul_server :: "string \<Rightarrow> string \<Rightarrow> error + http_Response" where
  "consul_server payload target =
     (if target = ''http://consul.test/v1/catalog/service/docker-registry''
      then Inr \<lparr>StatusCode = 200, Body = Inr payload\<rparr>
      else Inl (GoError ''connection refused''))"

definition two_registries :: string where
  "two_registries =
     [CHR 0x5B, CHR 0x7B, CHR 0x22] @ ''Address'' @ [CHR 0x22, CHR '':'', CHR '' '', CHR 0x22]
       @ ''10.244.2.6'' @ [CHR 0x22, CHR 0x7D, CHR '','', CHR 0x7B, CHR 0x22] @ ''Address''
       @ [CHR 0x22, CHR '':'', CHR '' '', CHR 0x22] @ ''10.244.2.7''
       @ [CHR 0x22, CHR 0x7D, CHR 0x5D]"

definition json_member :: "string \<Rightarrow> string \<Rightarrow> string" where
  "json_member k v = [CHR 0x22] @ k @ [CHR 0x22, CHR '':'', CHR 0x22] @ v @ [CHR 0x22]"

definition busybox_data :: string where
  "busybox_data = [CHR 0x7B] @ json_member ''docker_image_url'' ''busybox'' @ [CHR 0x7D]"

definition test_request :: StagingRequestFromCC where
  "test_request =
     \<lparr>AppId = ''bunny'',
      LogGuid = '''',
      FileDescriptors = 512,
      MemoryMB = 512,
      DiskMB = 512,
      Environment = [],
      EgressRules = [],
      Timeout = 512,
      Lifecycle = '''',
      LifecycleData = Some busybox_data\<rparr>"

definition cachingVar :: EnvironmentVariable where
  "cachingVar = \<lparr>Name = ''DIEGO_DOCKER_CACHE'', Value = ''true''\<rparr>"

definition test_environment :: "string \<Rightarrow> environment" where
  "test_environment payload = reference_environment (consul_server payload)"

definition test_compilerURL :: URL where
  "test_compilerURL =
     \<lparr>Scheme = ''http'', Opaque = '''', Host = ''file-server.com'',
      Path = ''/v1/static/docker_lifecycle/docker_app_lifecycle.tgz'', RawQuery = '''',
      Fragment = ''''\<rparr>"

definition docker_annotation :: string where
  "docker_annotation = [CHR 0x7B] @ json_member ''lifecycle'' ''docker'' @ [CHR 0x7D]"

definition test_download :: action where
  "test_download =
     EmitProgressAction
       (DownloadAction
          ''http://file-server.com/v1/static/docker_lifecycle/docker_app_lifecycle.tgz''
          ''/tmp/docker_app_lifecycle'' ''docker-lifecycle'' ''vcap'')
       '''' '''' ''Failed to set up docker environment''"

text \<open>The task that the test without image caching expects.\<close>

definition test_task :: TaskDefinition where
  "test_task =
     \<lparr>RootFs = ''preloaded:'',
      ResultFile = ''/tmp/docker-result/result.json'',
      Privileged = True,
      MemoryMb = 512,
      LogSource = ''STG'',
      task_LogGuid = '''',
      task_EgressRules = [],
      DiskMb = 512,
      CompletionCallbackUrl = ''/v1/staging/staging-guid/completed'',
      Annotation = docker_annotation,
      Action =
        TimeoutAction
          (SerialAction
             [test_download,
              EmitProgressAction
                (RunAction ''/tmp/docker_app_lifecycle/builder''
                   [''-outputMetadataJSONFilename'', ''/tmp/docker-result/result.json'',
                    ''-dockerRef'', ''busybox'']
                   [] 512 ''vcap'')
                ''Staging...'' ''Staging Complete'' ''Staging Failed''])
          512000000000\<rparr>"

text \<open>
  A request that opts in for image caching, with credentials, a login server and the
  egress rule of the buildpack backend's test, against an insecure registry.
\<close>

definition credentials_data :: string where
  "credentials_data =
     [CHR 0x7B] @ json_member ''docker_image_url'' ''busybox'' @ '',''
       @ json_member ''docker_login_server'' ''http://loginServer.com'' @ '',''
       @ json_member ''docker_user'' ''user'' @ '',''
       @ json_member ''docker_password'' ''password'' @ '',''
       @ json_member ''docker_email'' ''email@example.com'' @ [CHR 0x7D]"

definition test_rule :: SecurityGroupRule where
  "test_rule =
     \<lparr>Protocol = ''TCP'', Destinations = [''0.0.0.0/0''], Ports = [],
      PortRange = Some \<lparr>Start = 80, End = 443\<rparr>\<rparr>"

definition caching_request :: StagingRequestFromCC where
  "caching_request =
     test_request\<lparr>Environment := [cachingVar], EgressRules := [test_rule],
                  LifecycleData := Some credentials_data\<rparr>"

definition insecure_config :: Config where
  "insecure_config = test_config\<lparr>InsecureDockerRegistry := True\<rparr>"

definition test_registries :: "consulServiceInfo list" where
  "test_registries = [\<lparr>Address = ''10.244.2.6''\<rparr>, \<lparr>Address = ''10.244.2.7''\<rparr>]"

definition caching_task :: TaskDefinition where
  "caching_task =
     \<lparr>RootFs = ''preloaded:'',
      ResultFile = ''/tmp/docker-result/result.json'',
      Privileged = True,
      MemoryMb = 512,
      LogSource = ''STG'',
      task_LogGuid = '''',
      task_EgressRules =
        [test_rule, test_rule,
         \<lparr>Protocol = ''tcp'', Destinations = [''10.244.2.6''], Ports = [8080],
          PortRange = None\<rparr>,
         \<lparr>Protocol = ''tcp'', Destinations = [''10.244.2.7''], Ports = [8080],
          PortRange = None\<rparr>],
      DiskMb = 512,
      CompletionCallbackUrl = ''/v1/staging/staging-guid/completed'',
      Annotation = docker_annotation,
      Action =
        TimeoutAction
          (SerialAction
             [test_download,
              EmitProgressAction
                (RunAction ''/tmp/docker_app_lifecycle/builder''
                   [''-outputMetadataJSONFilename'', ''/tmp/docker-result/result.json'',
                    ''-dockerRef'', ''busybox'',
                    ''-cacheDockerImage'',
                    ''-dockerRegistryHost'', ''docker-registry.service.cf.internal'',
                    ''-dockerRegistryPort'', ''8080'',
                    ''-dockerRegistryIPs'', ''10.244.2.6,10.244.2.7'',
                    ''-insecureDockerRegistries'',
                    ''docker-registry.service.cf.internal:8080'',
                    ''-dockerLoginServer'', ''http://loginServer.com'',
                    ''-dockerUser'', ''user'',
                    ''-dockerPassword'', ''password'',
                    ''-dockerEmail'', ''email@example.com'']
                   [cachingVar] 512 ''root'')
                ''Staging...'' ''Staging Complete'' ''Staging Failed''])
          512000000000\<rparr>"

text \<open>The minima that the command line sets when its flags are not given.\<close>

definition default_minima_config :: Config where
  "default_minima_config = test_config\<lparr>MinMemoryMB := 1024, MinDiskMB := 3072\<rparr>"

text \<open>A request without an application id whose lifecycle data names a user only.\<close>

definition user_only_data :: string where
  "user_only_data =
     [CHR 0x7B] @ json_member ''docker_image_url'' ''busybox'' @ '',''
       @ json_member ''docker_user'' ''user'' @ [CHR 0x7D]"

definition anonymous_request :: StagingRequestFromCC where
  "anonymous_request = test_request\<lparr>AppId := '''', LifecycleData := Some user_only_data\<rparr>"

definition user_only_request :: StagingRequestFromCC where
  "user_only_request = test_request\<lparr>LifecycleData := Some user_only_data\<rparr>"

text \<open>Configurations of the compiler: a file server without a scheme, and full URLs.\<close>

definition bare_file_server_config :: Config where
  "bare_file_server_config = test_config\<lparr>FileServerURL := ''file-server.com''\<rparr>"

definition full_url_config :: Config where
  "full_url_config = test_config\<lparr>Lifecycles := [''docker'' \<mapsto> ''http://the-full-compiler-url'']\<rparr>"

definition bad_url_config :: Config where
  "bad_url_config = test_config\<lparr>Lifecycles := [''docker'' \<mapsto> ''ftp://the-bad-compiler-url'']\<rparr>"

definition no_compiler_config :: Config where
  "no_compiler_config = test_config\<lparr>Lifecycles := Map.empty\<rparr>"

text \<open>A completion callback of a failed task that carries the annotation of the recipe.\<close>

definition failed_callback :: TaskCallbackResponse where
  "failed_callback =
     \<lparr>callback_Annotation = docker_annotation, Failed = True,
      FailureReason = ''some-failure-reason'', Result = ''''\<rparr>"

text \<open>
  The request of the test that opts in for image caching, and a configuration whose
  consul cluster the network does not reach.
\<close>

definition opted_in_request :: StagingRequestFromCC where
  "opted_in_request = test_request\<lparr>Environment := [cachingVar]\<rparr>"

definition unreachable_consul_config :: Config where
  "unreachable_consul_config = test_config\<lparr>ConsulCluster := ''http://consul.down''\<rparr>"

section \<open>Properties of the docker backend\<close>

subsection \<open>The loops\<close>

lemma cacheDockerImage_iff:
  "cacheDockerImage vars
     = list_ex (\<lambda>v. Name v = ''DIEGO_DOCKER_CACHE'' \<and> Value v = ''true'') vars"
  by (induction vars) auto

lemma buildDockerRegistryAddresses_loop_map:
  "buildDockerRegistryAddresses_loop registries services = registries @ map Address services"
  by (induction services arbitrary: registries) auto

lemma buildDockerRegistryAddresses_map:
  "buildDockerRegistryAddresses services = map Address services"
  by (simp add: buildDockerRegistryAddresses_def buildDockerRegistryAddresses_loop_map)

lemma addDockerRegistryRules_map:
  "addDockerRegistryRules egressRules registries = egressRules @ map registryRule registries"
  by (induction registries arbitrary: egressRules) auto

subsection \<open>What an accepted request has gone through\<close>

lemma BuildRecipe_without_caching:
  assumes "\<not> cacheDockerImage (Environment request)"
    and "fst (BuildRecipe env config stagingGuid request) = Inr (td, g, d)"
  shows "\<exists>raw lifecycleData compilerURL.
           LifecycleData request = Some raw
         \<and> json_Unmarshal_DockerStagingData env raw = Inr lifecycleData
         \<and> validateRequest request lifecycleData = None
         \<and> compilerDownloadURL env config = Inr compilerURL
         \<and> td = assembleTaskDefinition env config stagingGuid request compilerURL
                  [''-outputMetadataJSONFilename'', DockerBuilderOutputPath,
                   ''-dockerRef'', DockerImageUrl lifecycleData] ''vcap''
         \<and> g = stagingGuid \<and> d = TaskDomain config"
  using assms
  by (auto simp: BuildRecipe_def Let_def split: option.splits sum.splits)

lemma BuildRecipe_with_caching:
  assumes "cacheDockerImage (Environment request)"
    and "fst (BuildRecipe env config stagingGuid request) = Inr (td, g, d)"
  shows "\<exists>raw lifecycleData compilerURL host port registryServices gets runActionArguments.
           LifecycleData request = Some raw
         \<and> json_Unmarshal_DockerStagingData env raw = Inr lifecycleData
         \<and> validateRequest request lifecycleData = None
         \<and> compilerDownloadURL env config = Inr compilerURL
         \<and> net_SplitHostPort env (DockerRegistryAddress config) = Inr (host, port)
         \<and> getDockerRegistryServices env (ConsulCluster config) = (Inr registryServices, gets)
         \<and> addDockerCachingArguments
               [''-outputMetadataJSONFilename'', DockerBuilderOutputPath,
                ''-dockerRef'', DockerImageUrl lifecycleData]
               (strings_Join (buildDockerRegistryAddresses registryServices) '','')
               (InsecureDockerRegistry config) host port lifecycleData = Inr runActionArguments
         \<and> td = assembleTaskDefinition env config stagingGuid
                  (request\<lparr>EgressRules := EgressRules request
                       @ addDockerRegistryRules (EgressRules request) registryServices\<rparr>)
                  compilerURL runActionArguments ''root''
         \<and> g = stagingGuid \<and> d = TaskDomain config"
  using assms
  by (auto simp: BuildRecipe_def Let_def split: option.splits sum.splits prod.splits)

lemma BuildRecipe_accepted:
  assumes "fst (BuildRecipe env config stagingGuid request) = Inr (td, g, d)"
  shows "\<exists>request' compilerURL runActionArguments runAs.
           td = assembleTaskDefinition env config stagingGuid request' compilerURL
                  runActionArguments runAs
         \<and> FileDescriptors request' = FileDescriptors request
         \<and> MemoryMB request' = MemoryMB request
         \<and> DiskMB request' = DiskMB request
         \<and> Timeout request' = Timeout request
         \<and> Environment request' = Environment request"
proof (cases "cacheDockerImage (Environment request)")
  case True
  from BuildRecipe_with_caching [OF True assms] show ?thesis
    by (elim exE conjE) (rule exI, rule exI, rule exI, rule exI, rule conjI, assumption, simp)
next
  case False
  from BuildRecipe_without_caching [OF False assms] show ?thesis
    by (elim exE conjE) (rule exI, rule exI, rule exI, rule exI, rule conjI, assumption, simp)
qed

subsection \<open>The backend on the fixtures\<close>

lemma test_recipe:
  "BuildRecipe (test_environment two_registries) test_config ''staging-guid'' test_request
     = (Inr (test_task, ''staging-guid'', ''''), [])"
  by code_simp

lemma caching_recipe:
  "BuildRecipe (test_environment two_registries) insecure_config ''staging-guid''
     caching_request
     = (Inr (caching_task, ''staging-guid'', ''''),
        [''http://consul.test/v1/catalog/service/docker-registry''])"
  by code_simp

lemma default_minima_recipe:
  "BuildRecipe (test_environment two_registries) default_minima_config ''staging-guid''
     test_request
     = (Inr (test_task, ''staging-guid'', ''''), [])"
  by code_simp

subsection \<open>Privileged mode\<close>

text \<open>
  Claim C10. Every task recipe that \<^verbatim>\<open>BuildRecipe\<close> produces is privileged, whether
  image caching is on or not.
\<close>

theorem recipe_is_privileged:
  "fst (BuildRecipe env config stagingGuid request) = Inr (td, g, d) \<Longrightarrow> Privileged td"
  by (drule BuildRecipe_accepted) (auto simp: assembleTaskDefinition_def Let_def)

text \<open>The theorem on the two tasks of the tests, without and with image caching.\<close>

theorem recipe_is_privileged_witness:
  "fst (BuildRecipe (test_environment two_registries) test_config ''staging-guid'' test_request)
     = Inr (test_task, ''staging-guid'', '''')
   \<and> fst (BuildRecipe (test_environment two_registries) insecure_config ''staging-guid''
            caching_request) = Inr (caching_task, ''staging-guid'', '''')
   \<and> Privileged test_task \<and> Privileged caching_task"
proof -
  have a: "fst (BuildRecipe (test_environment two_registries) test_config ''staging-guid''
             test_request) = Inr (test_task, ''staging-guid'', '''')"
    by (simp add: test_recipe)
  have b: "fst (BuildRecipe (test_environment two_registries) insecure_config ''staging-guid''
            caching_request) = Inr (caching_task, ''staging-guid'', '''')"
    by (simp add: caching_recipe)
  show ?thesis
    using a b recipe_is_privileged [OF a] recipe_is_privileged [OF b] by simp
qed

subsection \<open>Memory, disk and file descriptors\<close>

text \<open>
  Claim C1 says that the recipe's memory, disk and file descriptor limits are at least
  the configured minima, and equal to them for a request below them. The backend does
  not read the minima. As amended: for every request that \<^verbatim>\<open>BuildRecipe\<close> accepts,
  the memory and the disk of the recipe are those of the request, converted to 32 bits,
  and the file descriptor limit of the run action is that of the request.
\<close>

theorem recipe_limits_are_the_requests:
  assumes "fst (BuildRecipe env config stagingGuid request) = Inr (td, g, d)"
  shows "MemoryMb td = ucast (MemoryMB request)
       \<and> DiskMb td = ucast (DiskMB request)
       \<and> map_option run_Nofile (recipeRunAction td) = Some (FileDescriptors request)"
  using BuildRecipe_accepted [OF assms]
  by (auto simp: assembleTaskDefinition_def Let_def recipeRunAction_def EmitProgressFor_def)

theorem recipe_limits_are_the_requests_witness:
  "fst (BuildRecipe (test_environment two_registries) default_minima_config ''staging-guid''
          test_request) = Inr (test_task, ''staging-guid'', '''')
   \<and> MemoryMb test_task = ucast (MemoryMB test_request)
   \<and> DiskMb test_task = ucast (DiskMB test_request)
   \<and> map_option run_Nofile (recipeRunAction test_task) = Some (FileDescriptors test_request)"
proof -
  have a: "fst (BuildRecipe (test_environment two_registries) default_minima_config
             ''staging-guid'' test_request) = Inr (test_task, ''staging-guid'', '''')"
    by (simp add: default_minima_recipe)
  show ?thesis
    using a recipe_limits_are_the_requests [OF a] by simp
qed

text \<open>
  The claim as stated fails on the request of the test under the default minima of
  1024 MB of memory and 3072 MB of disk: the request asks for 512 MB of each, it is
  accepted, and the recipe has 512 MB of each.
\<close>

theorem recipe_below_the_minima:
  "fst (BuildRecipe (test_environment two_registries) default_minima_config ''staging-guid''
          test_request) = Inr (test_task, ''staging-guid'', '''')
   \<and> MinMemoryMB default_minima_config = 1024 \<and> MinDiskMB default_minima_config = 3072
   \<and> sint (MemoryMB test_request) = 512 \<and> sint (DiskMB test_request) = 512
   \<and> sint (MemoryMb test_task) = 512 \<and> sint (DiskMb test_task) = 512
   \<and> \<not> int (MinMemoryMB default_minima_config) \<le> sint (MemoryMb test_task)
   \<and> \<not> int (MinDiskMB default_minima_config) \<le> sint (DiskMb test_task)"
  by (simp add: default_minima_recipe)
     (simp add: default_minima_config_def test_config_def test_request_def test_task_def)

subsection \<open>The timeout\<close>

lemma dockerTimeout_seconds:
  assumes "0 < sint (Timeout request)" and "sint (Timeout request) \<le> 9223372036"
  shows "sint (dockerTimeout request) = sint (Timeout request) * 1000000000"
proof -
  have pos: "0 <s Timeout request"
    using assms(1) by (simp add: word_sless_alt)
  have "sint (Timeout request * Second)
          = signed_take_bit 63 (sint (Timeout request) * 1000000000)"
    by (simp add: sint_word_ariths Second_def)
  also have "\<dots> = sint (Timeout request) * 1000000000"
    using assms by (intro signed_take_bit_int_eq_self) simp_all
  finally show ?thesis
    using pos by (simp add: dockerTimeout_def)
qed

lemma dockerTimeout_default:
  assumes "sint (Timeout request) \<le> 0"
  shows "sint (dockerTimeout request) = 900000000000"
proof -
  have "\<not> 0 <s Timeout request"
    using assms by (simp add: word_sless_alt)
  then show ?thesis
    by (simp add: dockerTimeout_def DefaultStagingTimeout_def Minute_def Second_def)
qed

lemma recipeTimeout_accepted:
  assumes "fst (BuildRecipe env config stagingGuid request) = Inr (td, g, d)"
  shows "recipeTimeout td = Some (dockerTimeout request)"
  using BuildRecipe_accepted [OF assms]
  by (auto simp: assembleTaskDefinition_def Let_def recipeTimeout_def dockerTimeout_def)

text \<open>
  Claim C2 says that the root action is \<^verbatim>\<open>Timeout(Serial(...), t)\<close> with \<open>t\<close> the
  maximum of the request's timeout and 15 minutes, that is, the request's timeout in
  seconds when it is positive and 15 minutes otherwise. The maximum is not what the
  backend takes. As amended: for every request that \<^verbatim>\<open>BuildRecipe\<close> accepts, the
  root action is \<^verbatim>\<open>Timeout(Serial(...), t)\<close> where \<open>t\<close> is the request's timeout times
  one second of \<^verbatim>\<open>time.Duration\<close> when the timeout is positive, which is that many
  seconds up to 9223372036 of them, and 15 minutes otherwise.
\<close>

theorem recipe_timeout:
  assumes "fst (BuildRecipe env config stagingGuid request) = Inr (td, g, d)"
  shows "recipeTimeout td
           = Some (if 0 < sint (Timeout request) then Timeout request * Second
                   else DefaultStagingTimeout)
       \<and> (0 < sint (Timeout request) \<and> sint (Timeout request) \<le> 9223372036
            \<longrightarrow> map_option sint (recipeTimeout td) = Some (sint (Timeout request) * 1000000000))
       \<and> (sint (Timeout request) \<le> 0
            \<longrightarrow> map_option sint (recipeTimeout td) = Some (15 * 60 * 1000000000))"
  using recipeTimeout_accepted [OF assms] dockerTimeout_seconds [of request]
    dockerTimeout_default [of request]
  by (simp add: dockerTimeout_def word_sless_alt)

theorem recipe_timeout_witness:
  "fst (BuildRecipe (test_environment two_registries) test_config ''staging-guid'' test_request)
     = Inr (test_task, ''staging-guid'', '''')
   \<and> 0 < sint (Timeout test_request) \<and> sint (Timeout test_request) \<le> 9223372036
   \<and> map_option sint (recipeTimeout test_task) = Some (512 * 1000000000)"
proof -
  have a: "fst (BuildRecipe (test_environment two_registries) test_config ''staging-guid''
             test_request) = Inr (test_task, ''staging-guid'', '''')"
    by (simp add: test_recipe)
  have b: "sint (Timeout test_request) = 512"
    by (simp add: test_request_def)
  show ?thesis
    using a b recipe_timeout [OF a] by auto
qed

text \<open>
  The claim as stated fails on the request of the test: its timeout of 512 seconds is
  positive and below 15 minutes, and the root action times out after 512 seconds.
\<close>

theorem recipe_timeout_below_default:
  "fst (BuildRecipe (test_environment two_registries) test_config ''staging-guid'' test_request)
     = Inr (test_task, ''staging-guid'', '''')
   \<and> sint (Timeout test_request) = 512
   \<and> map_option sint (recipeTimeout test_task) = Some 512000000000
   \<and> (512000000000 :: int) \<noteq> max (512 * 1000000000) (15 * 60 * 1000000000)"
  by (simp add: test_recipe)
     (simp add: test_request_def test_task_def recipeTimeout_def)

subsection \<open>Without image caching\<close>

text \<open>
  Claim C6. For every docker staging request whose environment has no variable
  \<^verbatim>\<open>DIEGO_DOCKER_CACHE\<close> of value \<^verbatim>\<open>true\<close>, no GET request is sent, and when the
  request is accepted the arguments of the run action are exactly
  \<^verbatim>\<open>-outputMetadataJSONFilename /tmp/docker-result/result.json -dockerRef\<close> and the
  docker image URL, the run user is \<^verbatim>\<open>vcap\<close> and the egress rules of the recipe are
  those of the request.
\<close>

theorem recipe_without_caching:
  assumes "\<not> cachingRequested request"
  shows "snd (BuildRecipe env config stagingGuid request) = []
       \<and> (fst (BuildRecipe env config stagingGuid request) = Inr (td, g, d) \<longrightarrow>
            task_EgressRules td = EgressRules request
          \<and> (\<exists>raw lifecycleData.
                LifecycleData request = Some raw
              \<and> json_Unmarshal_DockerStagingData env raw = Inr lifecycleData
              \<and> recipeRunAction td
                  = Some (RunAction ''/tmp/docker_app_lifecycle/builder''
                            [''-outputMetadataJSONFilename'', ''/tmp/docker-result/result.json'',
                             ''-dockerRef'', DockerImageUrl lifecycleData]
                            (Environment request) (FileDescriptors request) ''vcap'')))"
proof -
  have off: "\<not> cacheDockerImage (Environment request)"
    using assms by (simp add: cachingRequested_def cacheDockerImage_iff)
  have trace: "snd (BuildRecipe env config stagingGuid request) = []"
    using off by (auto simp: BuildRecipe_def Let_def split: option.splits sum.splits)
  have recipe: "task_EgressRules td = EgressRules request
          \<and> (\<exists>raw lifecycleData.
                LifecycleData request = Some raw
              \<and> json_Unmarshal_DockerStagingData env raw = Inr lifecycleData
              \<and> recipeRunAction td
                  = Some (RunAction ''/tmp/docker_app_lifecycle/builder''
                            [''-outputMetadataJSONFilename'', ''/tmp/docker-result/result.json'',
                             ''-dockerRef'', DockerImageUrl lifecycleData]
                            (Environment request) (FileDescriptors request) ''vcap''))"
    if "fst (BuildRecipe env config stagingGuid request) = Inr (td, g, d)"
    using BuildRecipe_without_caching [OF off that]
    by (auto simp: assembleTaskDefinition_def Let_def recipeRunAction_def EmitProgressFor_def
          DockerBuilderExecutablePath_def DockerBuilderOutputPath_def)
  show ?thesis
    using trace recipe by blast
qed

theorem recipe_without_caching_witness:
  "\<not> cachingRequested test_request
   \<and> BuildRecipe (test_environment two_registries) test_config ''staging-guid'' test_request
       = (Inr (test_task, ''staging-guid'', ''''), [])
   \<and> task_EgressRules test_task = EgressRules test_request
   \<and> recipeRunAction test_task
       = Some (RunAction ''/tmp/docker_app_lifecycle/builder''
                 [''-outputMetadataJSONFilename'', ''/tmp/docker-result/result.json'',
                  ''-dockerRef'', ''busybox'']
                 [] 512 ''vcap'')"
proof -
  have a: "\<not> cachingRequested test_request"
    by (simp add: cachingRequested_def test_request_def)
  have b: "recipeRunAction test_task
       = Some (RunAction ''/tmp/docker_app_lifecycle/builder''
                 [''-outputMetadataJSONFilename'', ''/tmp/docker-result/result.json'',
                  ''-dockerRef'', ''busybox'']
                 [] 512 ''vcap'')"
    by (simp add: recipeRunAction_def test_task_def test_download_def)
  show ?thesis
    using a b test_recipe
      recipe_without_caching [OF a, of "test_environment two_registries" test_config
        "''staging-guid''" test_task "''staging-guid''" "''''"]
    by simp
qed

subsection \<open>With image caching: the arguments of the builder\<close>

lemma validateRequest_credentials:
  "validateRequest request lifecycleData = None
     \<Longrightarrow> (DockerUser lifecycleData \<noteq> '''') = allCredentials lifecycleData"
  by (auto simp: validateRequest_def allCredentials_def Let_def split: if_splits)

lemma addDockerCachingArguments_eq:
  "addDockerCachingArguments args registryIPs insecureRegistry host port stagingData
     = Inr (args
            @ [''-cacheDockerImage'', ''-dockerRegistryHost'', host,
               ''-dockerRegistryPort'', port, ''-dockerRegistryIPs'', registryIPs]
            @ (if insecureRegistry then [''-insecureDockerRegistries'', host @ '':'' @ port]
               else [])
            @ (if DockerLoginServer stagingData \<noteq> ''''
               then [''-dockerLoginServer'', DockerLoginServer stagingData] else [])
            @ (if DockerUser stagingData \<noteq> ''''
               then [''-dockerUser'', DockerUser stagingData,
                     ''-dockerPassword'', DockerPassword stagingData,
                     ''-dockerEmail'', DockerEmail stagingData]
               else []))"
  by (simp add: addDockerCachingArguments_def Let_def)

text \<open>
  Claim C7. In image caching mode, for every request that \<^verbatim>\<open>BuildRecipe\<close> accepts,
  the arguments of the builder are the four base arguments followed, in this order, by
  \<^verbatim>\<open>-cacheDockerImage\<close>, \<^verbatim>\<open>-dockerRegistryHost\<close> and the host,
  \<^verbatim>\<open>-dockerRegistryPort\<close> and the port, \<^verbatim>\<open>-dockerRegistryIPs\<close> and the addresses
  of the registries joined by commas; then \<^verbatim>\<open>-insecureDockerRegistries\<close> and
  \<^verbatim>\<open>host:port\<close> iff the registry is insecure; then \<^verbatim>\<open>-dockerLoginServer\<close> and the
  login server iff it is not empty; then \<^verbatim>\<open>-dockerUser\<close>, \<^verbatim>\<open>-dockerPassword\<close> and
  \<^verbatim>\<open>-dockerEmail\<close> with their values iff the credentials are present. The run user
  is \<^verbatim>\<open>root\<close>.
\<close>

theorem caching_arguments:
  assumes "cachingRequested request"
    and "fst (BuildRecipe env config stagingGuid request) = Inr (td, g, d)"
  shows "\<exists>raw lifecycleData host port registryServices.
           LifecycleData request = Some raw
         \<and> json_Unmarshal_DockerStagingData env raw = Inr lifecycleData
         \<and> net_SplitHostPort env (DockerRegistryAddress config) = Inr (host, port)
         \<and> fst (getDockerRegistryServices env (ConsulCluster config)) = Inr registryServices
         \<and> recipeRunAction td
             = Some (RunAction ''/tmp/docker_app_lifecycle/builder''
                      ([''-outputMetadataJSONFilename'', ''/tmp/docker-result/result.json'',
                        ''-dockerRef'', DockerImageUrl lifecycleData]
                       @ [''-cacheDockerImage'',
                          ''-dockerRegistryHost'', host,
                          ''-dockerRegistryPort'', port,
                          ''-dockerRegistryIPs'',
                          strings_Join (map Address registryServices) '','']
                       @ (if InsecureDockerRegistry config
                          then [''-insecureDockerRegistries'', host @ '':'' @ port] else [])
                       @ (if DockerLoginServer lifecycleData \<noteq> ''''
                          then [''-dockerLoginServer'', DockerLoginServer lifecycleData]
                          else [])
                       @ (if allCredentials lifecycleData
                          then [''-dockerUser'', DockerUser lifecycleData,
                                ''-dockerPassword'', DockerPassword lifecycleData,
                                ''-dockerEmail'', DockerEmail lifecycleData]
                          else []))
                      (Environment request) (FileDescriptors request) ''root'')"
proof -
  have on: "cacheDockerImage (Environment request)"
    using assms(1) by (simp add: cachingRequested_def cacheDockerImage_iff)
  from BuildRecipe_with_caching [OF on assms(2)]
  obtain raw lifecycleData compilerURL host port registryServices gets runActionArguments
    where raw: "LifecycleData request = Some raw"
      and data: "json_Unmarshal_DockerStagingData env raw = Inr lifecycleData"
      and valid: "validateRequest request lifecycleData = None"
      and split: "net_SplitHostPort env (DockerRegistryAddress config) = Inr (host, port)"
      and services: "getDockerRegistryServices env (ConsulCluster config)
                       = (Inr registryServices, gets)"
      and args: "addDockerCachingArguments
               [''-outputMetadataJSONFilename'', DockerBuilderOutputPath,
                ''-dockerRef'', DockerImageUrl lifecycleData]
               (strings_Join (buildDockerRegistryAddresses registryServices) '','')
               (InsecureDockerRegistry config) host port lifecycleData = Inr runActionArguments"
      and td: "td = assembleTaskDefinition env config stagingGuid
                  (request\<lparr>EgressRules := EgressRules request
                       @ addDockerRegistryRules (EgressRules request) registryServices\<rparr>)
                  compilerURL runActionArguments ''root''"
    by blast
  have run: "recipeRunAction td
               = Some (RunAction ''/tmp/docker_app_lifecycle/builder'' runActionArguments
                         (Environment request) (FileDescriptors request) ''root'')"
    by (simp add: td assembleTaskDefinition_def Let_def recipeRunAction_def EmitProgressFor_def
          DockerBuilderExecutablePath_def)
  have "runActionArguments
          = [''-outputMetadataJSONFilename'', ''/tmp/docker-result/result.json'',
             ''-dockerRef'', DockerImageUrl lifecycleData]
            @ [''-cacheDockerImage'', ''-dockerRegistryHost'', host,
               ''-dockerRegistryPort'', port, ''-dockerRegistryIPs'',
               strings_Join (map Address registryServices) '','']
            @ (if InsecureDockerRegistry config
               then [''-insecureDockerRegistries'', host @ '':'' @ port] else [])
            @ (if DockerLoginServer lifecycleData \<noteq> ''''
               then [''-dockerLoginServer'', DockerLoginServer lifecycleData] else [])
            @ (if allCredentials lifecycleData
               then [''-dockerUser'', DockerUser lifecycleData,
                     ''-dockerPassword'', DockerPassword lifecycleData,
                     ''-dockerEmail'', DockerEmail lifecycleData]
               else [])"
    using args validateRequest_credentials [OF valid]
    by (simp add: addDockerCachingArguments_eq buildDockerRegistryAddresses_map
          DockerBuilderOutputPath_def)
  with run raw data split services show ?thesis
    by simp
qed

theorem caching_arguments_witness:
  "cachingRequested caching_request
   \<and> fst (BuildRecipe (test_environment two_registries) insecure_config ''staging-guid''
            caching_request) = Inr (caching_task, ''staging-guid'', '''')
   \<and> recipeRunAction caching_task
       = Some (RunAction ''/tmp/docker_app_lifecycle/builder''
                 [''-outputMetadataJSONFilename'', ''/tmp/docker-result/result.json'',
                  ''-dockerRef'', ''busybox'',
                  ''-cacheDockerImage'',
                  ''-dockerRegistryHost'', ''docker-registry.service.cf.internal'',
                  ''-dockerRegistryPort'', ''8080'',
                  ''-dockerRegistryIPs'', ''10.244.2.6,10.244.2.7'',
                  ''-insecureDockerRegistries'', ''docker-registry.service.cf.internal:8080'',
                  ''-dockerLoginServer'', ''http://loginServer.com'',
                  ''-dockerUser'', ''user'',
                  ''-dockerPassword'', ''password'',
                  ''-dockerEmail'', ''email@example.com'']
                 [cachingVar] 512 ''root'')"
proof -
  have a: "cachingRequested caching_request"
    by (simp add: cachingRequested_def caching_request_def cachingVar_def)
  have b: "fst (BuildRecipe (test_environment two_registries) insecure_config ''staging-guid''
            caching_request) = Inr (caching_task, ''staging-guid'', '''')"
    by (simp add: caching_recipe)
  have c: "recipeRunAction caching_task
       = Some (RunAction ''/tmp/docker_app_lifecycle/builder''
                 [''-outputMetadataJSONFilename'', ''/tmp/docker-result/result.json'',
                  ''-dockerRef'', ''busybox'',
                  ''-cacheDockerImage'',
                  ''-dockerRegistryHost'', ''docker-registry.service.cf.internal'',
                  ''-dockerRegistryPort'', ''8080'',
                  ''-dockerRegistryIPs'', ''10.244.2.6,10.244.2.7'',
                  ''-insecureDockerRegistries'', ''docker-registry.service.cf.internal:8080'',
                  ''-dockerLoginServer'', ''http://loginServer.com'',
                  ''-dockerUser'', ''user'',
                  ''-dockerPassword'', ''password'',
                  ''-dockerEmail'', ''email@example.com'']
                 [cachingVar] 512 ''root'')"
    by (simp add: recipeRunAction_def caching_task_def test_download_def)
  show ?thesis
    using a b c caching_arguments [OF a b] by simp
qed

subsection \<open>With image caching: the egress rules\<close>

text \<open>
  The code appends to the egress rules of the request the result of
  \<^verbatim>\<open>addDockerRegistryRules\<close>, which starts with these rules itself: the rules of the
  request come twice, before the rules of the registries.
\<close>

lemma caching_egress_rules:
  assumes "cacheDockerImage (Environment request)"
    and "fst (BuildRecipe env config stagingGuid request) = Inr (td, g, d)"
  shows "\<exists>registryServices.
           fst (getDockerRegistryServices env (ConsulCluster config)) = Inr registryServices
         \<and> task_EgressRules td
             = EgressRules request @ EgressRules request @ map registryRule registryServices"
  using BuildRecipe_with_caching [OF assms]
  by (auto simp: assembleTaskDefinition_def Let_def addDockerRegistryRules_map)

text \<open>
  Claim C8. In image caching mode, for every request that \<^verbatim>\<open>BuildRecipe\<close> accepts,
  the egress rules of the recipe contain every egress rule of the request and end with
  one rule of protocol TCP, destination the address and port 8080 for each registry
  that consul has returned, in the order of the answer.
\<close>

theorem caching_egress_rules_superset:
  assumes "cachingRequested request"
    and "fst (BuildRecipe env config stagingGuid request) = Inr (td, g, d)"
  shows "\<exists>registryServices front.
           fst (getDockerRegistryServices env (ConsulCluster config)) = Inr registryServices
         \<and> set (EgressRules request) \<subseteq> set (task_EgressRules td)
         \<and> task_EgressRules td
             = front @ map (\<lambda>registry. \<lparr>Protocol = TCPProtocol,
                                         Destinations = [Address registry],
                                         Ports = [8080], PortRange = None\<rparr>) registryServices"
proof -
  have on: "cacheDockerImage (Environment request)"
    using assms(1) by (simp add: cachingRequested_def cacheDockerImage_iff)
  from caching_egress_rules [OF on assms(2)]
  obtain registryServices
    where services: "fst (getDockerRegistryServices env (ConsulCluster config))
                       = Inr registryServices"
      and rules: "task_EgressRules td
             = EgressRules request @ EgressRules request @ map registryRule registryServices"
    by blast
  have "task_EgressRules td
          = (EgressRules request @ EgressRules request)
            @ map (\<lambda>registry. \<lparr>Protocol = TCPProtocol, Destinations = [Address registry],
                                Ports = [8080], PortRange = None\<rparr>) registryServices"
    using rules by (simp add: registryRule_def [abs_def])
  moreover have "set (EgressRules request) \<subseteq> set (task_EgressRules td)"
    using rules by auto
  ultimately show ?thesis
    using services by blast
qed

theorem caching_egress_rules_superset_witness:
  "cachingRequested caching_request
   \<and> fst (BuildRecipe (test_environment two_registries) insecure_config ''staging-guid''
            caching_request) = Inr (caching_task, ''staging-guid'', '''')
   \<and> fst (getDockerRegistryServices (test_environment two_registries)
            (ConsulCluster insecure_config)) = Inr test_registries
   \<and> EgressRules caching_request = [test_rule]
   \<and> task_EgressRules caching_task
       = [test_rule, test_rule]
         @ map (\<lambda>registry. \<lparr>Protocol = TCPProtocol, Destinations = [Address registry],
                             Ports = [8080], PortRange = None\<rparr>) test_registries"
proof -
  have a: "cachingRequested caching_request"
    by (simp add: cachingRequested_def caching_request_def cachingVar_def)
  have b: "fst (BuildRecipe (test_environment two_registries) insecure_config ''staging-guid''
            caching_request) = Inr (caching_task, ''staging-guid'', '''')"
    by (simp add: caching_recipe)
  have c: "fst (getDockerRegistryServices (test_environment two_registries)
            (ConsulCluster insecure_config)) = Inr test_registries"
    by code_simp
  have d: "EgressRules caching_request = [test_rule]"
    by (simp add: caching_request_def)
  have e: "task_EgressRules caching_task
       = [test_rule, test_rule]
         @ map (\<lambda>registry. \<lparr>Protocol = TCPProtocol, Destinations = [Address registry],
                             Ports = [8080], PortRange = None\<rparr>) test_registries"
    by (simp add: caching_task_def test_registries_def TCPProtocol_def)
  show ?thesis
    using a b c d e caching_egress_rules_superset [OF a b] by simp
qed

subsection \<open>With image caching: a failing discovery\<close>

lemma getDockerRegistryServices_trace:
  "snd (getDockerRegistryServices env consulCluster)
     = [consulCluster @ ''/v1/catalog/service/docker-registry'']"
  by (simp add: getDockerRegistryServices_def Let_def)

text \<open>
  \<^verbatim>\<open>BuildRecipe\<close> sends a request to the consul endpoint exactly when the lifecycle
  data decodes, the request is valid, the URL of the compiler resolves, image caching
  is on and the address of the registry splits into host and port.
\<close>

lemma BuildRecipe_sends_request_iff:
  "snd (BuildRecipe env config stagingGuid request) \<noteq> [] \<longleftrightarrow>
     (\<exists>raw lifecycleData compilerURL host port.
        LifecycleData request = Some raw
      \<and> json_Unmarshal_DockerStagingData env raw = Inr lifecycleData
      \<and> validateRequest request lifecycleData = None
      \<and> compilerDownloadURL env config = Inr compilerURL
      \<and> cacheDockerImage (Environment request)
      \<and> net_SplitHostPort env (DockerRegistryAddress config) = Inr (host, port))"
  using getDockerRegistryServices_trace [of env "ConsulCluster config"]
  by (auto simp: BuildRecipe_def Let_def addDockerCachingArguments_eq
        split: option.splits sum.splits prod.splits)

lemma BuildRecipe_discovery_failure:
  assumes "fst (getDockerRegistryServices env (ConsulCluster config)) = Inl err"
    and "cacheDockerImage (Environment request)"
  shows "isl (fst (BuildRecipe env config stagingGuid request))"
    and "snd (BuildRecipe env config stagingGuid request) \<noteq> [] \<Longrightarrow>
           BuildRecipe env config stagingGuid request
             = (Inl err, [ConsulCluster config @ ''/v1/catalog/service/docker-registry''])"
  using assms getDockerRegistryServices_trace [of env "ConsulCluster config"]
  by (auto simp: BuildRecipe_def Let_def split: option.splits sum.splits prod.splits)

text \<open>
  Claim C9. When image caching is on and the consul endpoint answers with an empty JSON
  array, the discovery fails with \<^verbatim>\<open>ErrMissingDockerRegistry\<close>; when the GET request
  fails, the body cannot be read or it cannot be decoded, the discovery fails with that
  error. In each case \<^verbatim>\<open>BuildRecipe\<close> produces no recipe, and whenever it has sent a
  request to the endpoint it has sent exactly one and returns the error of the
  discovery.
\<close>

theorem discovery_failure_surfaces:
  assumes "cachingRequested request"
  shows "(http_Get env (ConsulCluster config @ ''/v1/catalog/service/docker-registry'')
            = Inr response
          \<and> Body response = Inr body
          \<and> json_Unmarshal_consulServiceInfos env body = Inr []
          \<longrightarrow> fst (getDockerRegistryServices env (ConsulCluster config))
                = Inl ErrMissingDockerRegistry
            \<and> isl (fst (BuildRecipe env config stagingGuid request))
            \<and> (snd (BuildRecipe env config stagingGuid request) \<noteq> []
                 \<longrightarrow> BuildRecipe env config stagingGuid request
                     = (Inl ErrMissingDockerRegistry,
                        [ConsulCluster config @ ''/v1/catalog/service/docker-registry''])))
       \<and> (http_Get env (ConsulCluster config @ ''/v1/catalog/service/docker-registry'')
            = Inl err
          \<or> (http_Get env (ConsulCluster config @ ''/v1/catalog/service/docker-registry'')
                = Inr response
              \<and> Body response = Inl err)
          \<or> (http_Get env (ConsulCluster config @ ''/v1/catalog/service/docker-registry'')
                = Inr response
              \<and> Body response = Inr body
              \<and> json_Unmarshal_consulServiceInfos env body = Inl err)
          \<longrightarrow> fst (getDockerRegistryServices env (ConsulCluster config)) = Inl err
            \<and> isl (fst (BuildRecipe env config stagingGuid request))
            \<and> (snd (BuildRecipe env config stagingGuid request) \<noteq> []
                 \<longrightarrow> BuildRecipe env config stagingGuid request
                     = (Inl err,
                        [ConsulCluster config @ ''/v1/catalog/service/docker-registry''])))"
proof -
  have on: "cacheDockerImage (Environment request)"
    using assms by (simp add: cachingRequested_def cacheDockerImage_iff)
  have empty: "fst (getDockerRegistryServices env (ConsulCluster config))
                 = Inl ErrMissingDockerRegistry"
    if "http_Get env (ConsulCluster config @ ''/v1/catalog/service/docker-registry'')
          = Inr response"
      and "Body response = Inr body"
      and "json_Unmarshal_consulServiceInfos env body = Inr []"
    using that by (simp add: getDockerRegistryServices_def Let_def)
  have failed: "fst (getDockerRegistryServices env (ConsulCluster config)) = Inl err"
    if "http_Get env (ConsulCluster config @ ''/v1/catalog/service/docker-registry'')
            = Inl err
          \<or> (http_Get env (ConsulCluster config @ ''/v1/catalog/service/docker-registry'')
                = Inr response
              \<and> Body response = Inl err)
          \<or> (http_Get env (ConsulCluster config @ ''/v1/catalog/service/docker-registry'')
                = Inr response
              \<and> Body response = Inr body
              \<and> json_Unmarshal_consulServiceInfos env body = Inl err)"
    using that by (auto simp: getDockerRegistryServices_def Let_def)
  show ?thesis
    using empty failed BuildRecipe_discovery_failure [OF _ on, of env config]
    by blast
qed

theorem discovery_failure_surfaces_witness:
  "cachingRequested opted_in_request
   \<and> http_Get (test_environment ''[]'') ''http://consul.test/v1/catalog/service/docker-registry''
       = Inr \<lparr>StatusCode = 200, Body = Inr ''[]''\<rparr>
   \<and> json_Unmarshal_consulServiceInfos (test_environment ''[]'') ''[]'' = Inr []
   \<and> BuildRecipe (test_environment ''[]'') test_config ''staging-guid'' opted_in_request
       = (Inl ErrMissingDockerRegistry,
          [''http://consul.test/v1/catalog/service/docker-registry''])
   \<and> http_Get (test_environment ''[]'') ''http://consul.down/v1/catalog/service/docker-registry''
       = Inl (GoError ''connection refused'')
   \<and> BuildRecipe (test_environment ''[]'') unreachable_consul_config ''staging-guid''
         opted_in_request
       = (Inl (GoError ''connection refused''),
          [''http://consul.down/v1/catalog/service/docker-registry''])"
proof -
  have a: "cachingRequested opted_in_request"
    by (simp add: cachingRequested_def opted_in_request_def cachingVar_def)
  have b: "http_Get (test_environment ''[]'')
             (ConsulCluster test_config @ ''/v1/catalog/service/docker-registry'')
           = Inr \<lparr>StatusCode = 200, Body = Inr ''[]''\<rparr>"
    by code_simp
  have c: "json_Unmarshal_consulServiceInfos (test_environment ''[]'') ''[]'' = Inr []"
    by code_simp
  have d: "snd (BuildRecipe (test_environment ''[]'') test_config ''staging-guid''
                  opted_in_request) \<noteq> []"
    by code_simp
  have e: "http_Get (test_environment ''[]'')
             (ConsulCluster unreachable_consul_config @ ''/v1/catalog/service/docker-registry'')
           = Inl (GoError ''connection refused'')"
    by code_simp
  have f: "snd (BuildRecipe (test_environment ''[]'') unreachable_consul_config
                  ''staging-guid'' opted_in_request) \<noteq> []"
    by code_simp
  have g: "ConsulCluster test_config = ''http://consul.test''"
    by (simp add: test_config_def)
  have h: "ConsulCluster unreachable_consul_config = ''http://consul.down''"
    by (simp add: unreachable_consul_config_def)
  show ?thesis
    using a b c d e f
      discovery_failure_surfaces [OF a, of "test_environment ''[]''" test_config
        "\<lparr>StatusCode = 200, Body = Inr ''[]''\<rparr>" "''[]''" "''staging-guid''"]
      discovery_failure_surfaces [OF a, of "test_environment ''[]''" unreachable_consul_config
        _ _ "''staging-guid''" "GoError ''connection refused''"]
    by (simp add: g h)
qed

subsection \<open>The credentials\<close>

lemma user_only_decoded:
  "decode_DockerStagingData user_only_data
     = Inr \<lparr>DockerImageUrl = ''busybox'', DockerLoginServer = '''', DockerUser = ''user'',
            DockerPassword = '''', DockerEmail = ''''\<rparr>"
  by code_simp

lemma credentials_decoded:
  "decode_DockerStagingData credentials_data
     = Inr \<lparr>DockerImageUrl = ''busybox'', DockerLoginServer = ''http://loginServer.com'',
            DockerUser = ''user'', DockerPassword = ''password'',
            DockerEmail = ''email@example.com''\<rparr>"
  by code_simp

text \<open>
  Claim C4 says that \<^verbatim>\<open>BuildRecipe\<close> returns \<^verbatim>\<open>ErrMissingDockerCredentials\<close> for
  every request whose lifecycle data has some but not all of the user, the password and
  the email, and that the check passes when it has all of them or none. The checks of
  the application id and of the image URL come before. As amended: for every request
  with an application id whose lifecycle data has an image URL and some but not all of
  the three, \<^verbatim>\<open>BuildRecipe\<close> returns \<^verbatim>\<open>ErrMissingDockerCredentials\<close> and no recipe,
  without a GET request; when the lifecycle data has all three or none,
  \<^verbatim>\<open>validateRequest\<close> does not return this error, and it accepts the request when
  the application id and the image URL are there.
\<close>

theorem partial_credentials_rejected:
  assumes "LifecycleData request = Some raw"
    and "json_Unmarshal_DockerStagingData env raw = Inr lifecycleData"
  shows "(AppId request \<noteq> '''' \<and> DockerImageUrl lifecycleData \<noteq> ''''
            \<and> someCredentials lifecycleData \<and> \<not> allCredentials lifecycleData
          \<longrightarrow> BuildRecipe env config stagingGuid request
                = (Inl ErrMissingDockerCredentials, []))
       \<and> (allCredentials lifecycleData \<or> \<not> someCredentials lifecycleData
          \<longrightarrow> validateRequest request lifecycleData \<noteq> Some ErrMissingDockerCredentials
            \<and> (AppId request \<noteq> '''' \<and> DockerImageUrl lifecycleData \<noteq> ''''
                 \<longrightarrow> validateRequest request lifecycleData = None))"
  using assms
  by (auto simp: BuildRecipe_def validateRequest_def someCredentials_def allCredentials_def
        Let_def)

theorem partial_credentials_rejected_witness:
  "LifecycleData user_only_request = Some user_only_data
   \<and> json_Unmarshal_DockerStagingData (test_environment two_registries) user_only_data
       = Inr \<lparr>DockerImageUrl = ''busybox'', DockerLoginServer = '''', DockerUser = ''user'',
              DockerPassword = '''', DockerEmail = ''''\<rparr>
   \<and> AppId user_only_request = ''bunny''
   \<and> BuildRecipe (test_environment two_registries) test_config ''staging-guid''
         user_only_request = (Inl ErrMissingDockerCredentials, [])
   \<and> LifecycleData caching_request = Some credentials_data
   \<and> json_Unmarshal_DockerStagingData (test_environment two_registries) credentials_data
       = Inr \<lparr>DockerImageUrl = ''busybox'', DockerLoginServer = ''http://loginServer.com'',
              DockerUser = ''user'', DockerPassword = ''password'',
              DockerEmail = ''email@example.com''\<rparr>
   \<and> validateRequest caching_request
         \<lparr>DockerImageUrl = ''busybox'', DockerLoginServer = ''http://loginServer.com'',
          DockerUser = ''user'', DockerPassword = ''password'',
          DockerEmail = ''email@example.com''\<rparr> = None"
proof -
  have a: "LifecycleData user_only_request = Some user_only_data"
    by (simp add: user_only_request_def)
  have b: "json_Unmarshal_DockerStagingData (test_environment two_registries) user_only_data
       = Inr \<lparr>DockerImageUrl = ''busybox'', DockerLoginServer = '''', DockerUser = ''user'',
              DockerPassword = '''', DockerEmail = ''''\<rparr>"
    by (simp add: test_environment_def reference_environment_def user_only_decoded)
  have c: "AppId user_only_request = ''bunny''"
    by (simp add: user_only_request_def test_request_def)
  have d: "LifecycleData caching_request = Some credentials_data"
    by (simp add: caching_request_def)
  have e: "json_Unmarshal_DockerStagingData (test_environment two_registries) credentials_data
       = Inr \<lparr>DockerImageUrl = ''busybox'', DockerLoginServer = ''http://loginServer.com'',
              DockerUser = ''user'', DockerPassword = ''password'',
              DockerEmail = ''email@example.com''\<rparr>"
    by (simp add: test_environment_def reference_environment_def credentials_decoded)
  have f: "AppId caching_request = ''bunny''"
    by (simp add: caching_request_def test_request_def)
  show ?thesis
    using a b c d e f
      partial_credentials_rejected [OF a b, of test_config "''staging-guid''"]
      partial_credentials_rejected [OF d e, of test_config "''staging-guid''"]
    by (simp add: someCredentials_def allCredentials_def)
qed

text \<open>
  The claim as stated fails on a request without an application id whose lifecycle data
  names a user and neither password nor email: the error is \<^verbatim>\<open>ErrMissingAppId\<close>.
\<close>

theorem missing_app_id_comes_first:
  "LifecycleData anonymous_request = Some user_only_data
   \<and> json_Unmarshal_DockerStagingData (test_environment two_registries) user_only_data
       = Inr \<lparr>DockerImageUrl = ''busybox'', DockerLoginServer = '''', DockerUser = ''user'',
              DockerPassword = '''', DockerEmail = ''''\<rparr>
   \<and> someCredentials \<lparr>DockerImageUrl = ''busybox'', DockerLoginServer = '''',
                        DockerUser = ''user'', DockerPassword = '''', DockerEmail = ''''\<rparr>
   \<and> \<not> allCredentials \<lparr>DockerImageUrl = ''busybox'', DockerLoginServer = '''',
                         DockerUser = ''user'', DockerPassword = '''', DockerEmail = ''''\<rparr>
   \<and> BuildRecipe (test_environment two_registries) test_config ''staging-guid''
         anonymous_request = (Inl ErrMissingAppId, [])
   \<and> ErrMissingAppId \<noteq> ErrMissingDockerCredentials"
proof -
  have "BuildRecipe (test_environment two_registries) test_config ''staging-guid''
         anonymous_request = (Inl ErrMissingAppId, [])"
    by code_simp
  then show ?thesis
    by (simp add: anonymous_request_def test_environment_def reference_environment_def
          user_only_decoded someCredentials_def allCredentials_def)
qed

subsection \<open>The URL of the compiler\<close>

text \<open>
  Claim C5 says that a configured value with scheme \<^verbatim>\<open>http\<close> or \<^verbatim>\<open>https\<close> is
  returned as it is, that a value without a scheme gives the file server's URL followed
  by \<^verbatim>\<open>/v1/static/\<close> and the value, that another scheme is an error and that a missing
  \<^verbatim>\<open>docker\<close> key is \<^verbatim>\<open>ErrNoCompilerDefined\<close>. For a value without a scheme the
  joined string is parsed again, and this can fail. As amended: a missing key is
  \<^verbatim>\<open>ErrNoCompilerDefined\<close>; a value that \<^verbatim>\<open>url.Parse\<close> accepts with scheme
  \<^verbatim>\<open>http\<close> or \<^verbatim>\<open>https\<close> is returned as parsed; with another scheme that is not
  empty the result is the error \<^verbatim>\<open>unknown scheme\<close>; with an empty scheme the result
  is what \<^verbatim>\<open>url.ParseRequestURI\<close> makes of \<^verbatim>\<open>urljoiner.Join\<close> of the file server's
  URL, \<^verbatim>\<open>/v1/static/\<close> and the value, and an error when that string is not a request
  URI.
\<close>

theorem compiler_url_resolution:
  "(Lifecycles config ''docker'' = None \<or> Lifecycles config ''docker'' = Some ''''
      \<longrightarrow> compilerDownloadURL env config = Inl ErrNoCompilerDefined)
   \<and> (Lifecycles config ''docker'' = Some val \<and> val \<noteq> '''' \<and> url_Parse env val = Inr parsed
      \<longrightarrow> (Scheme parsed = ''http'' \<or> Scheme parsed = ''https''
             \<longrightarrow> compilerDownloadURL env config = Inr parsed)
        \<and> (Scheme parsed \<noteq> ''http'' \<and> Scheme parsed \<noteq> ''https'' \<and> Scheme parsed \<noteq> ''''
             \<longrightarrow> compilerDownloadURL env config
                 = Inl (GoError (''unknown scheme: '' @ [CHR 0x27] @ Scheme parsed
                                  @ [CHR 0x27])))
        \<and> (Scheme parsed = '''' \<and> fileserver_StaticRoutePath env = Inr ''/v1/static/''
             \<longrightarrow> compilerDownloadURL env config
                 = (case url_ParseRequestURI env
                           (urljoiner_Join env (FileServerURL config) [''/v1/static/'', val]) of
                      Inl err \<Rightarrow> Inl (GoError ''failed to parse compiler download URL'')
                    | Inr url \<Rightarrow> Inr url)))"
  by (auto simp: compilerDownloadURL_def Let_def split: sum.splits)

text \<open>
  The four cases on the configurations of the tests. With the file server of the tests
  the URL of the compiler reads as the file server's URL, \<^verbatim>\<open>/v1/static/\<close> and the
  value.
\<close>

theorem compiler_url_resolution_witness:
  "compilerDownloadURL (test_environment two_registries) no_compiler_config
     = Inl ErrNoCompilerDefined
   \<and> compilerDownloadURL (test_environment two_registries) full_url_config
     = Inr \<lparr>Scheme = ''http'', Opaque = '''', Host = ''the-full-compiler-url'', Path = '''',
            RawQuery = '''', Fragment = ''''\<rparr>
   \<and> URL_String (test_environment two_registries)
        \<lparr>Scheme = ''http'', Opaque = '''', Host = ''the-full-compiler-url'', Path = '''',
         RawQuery = '''', Fragment = ''''\<rparr> = ''http://the-full-compiler-url''
   \<and> compilerDownloadURL (test_environment two_registries) bad_url_config
     = Inl (GoError (''unknown scheme: '' @ [CHR 0x27] @ ''ftp'' @ [CHR 0x27]))
   \<and> compilerDownloadURL (test_environment two_registries) test_config = Inr test_compilerURL
   \<and> URL_String (test_environment two_registries) test_compilerURL
     = FileServerURL test_config @ ''/v1/static/''
         @ ''docker_lifecycle/docker_app_lifecycle.tgz''"
proof -
  have a: "Lifecycles no_compiler_config ''docker'' = None"
    by (simp add: no_compiler_config_def)
  have b: "Lifecycles full_url_config ''docker'' = Some ''http://the-full-compiler-url''
           \<and> url_Parse (test_environment two_registries) ''http://the-full-compiler-url''
               = Inr \<lparr>Scheme = ''http'', Opaque = '''', Host = ''the-full-compiler-url'',
                      Path = '''', RawQuery = '''', Fragment = ''''\<rparr>"
    by code_simp
  have c: "Lifecycles bad_url_config ''docker'' = Some ''ftp://the-bad-compiler-url''
           \<and> url_Parse (test_environment two_registries) ''ftp://the-bad-compiler-url''
               = Inr \<lparr>Scheme = ''ftp'', Opaque = '''', Host = ''the-bad-compiler-url'',
                      Path = '''', RawQuery = '''', Fragment = ''''\<rparr>"
    by code_simp
  have d: "Lifecycles test_config ''docker'' = Some ''docker_lifecycle/docker_app_lifecycle.tgz''
           \<and> url_Parse (test_environment two_registries)
                 ''docker_lifecycle/docker_app_lifecycle.tgz''
               = Inr \<lparr>Scheme = '''', Opaque = '''', Host = '''',
                      Path = ''docker_lifecycle/docker_app_lifecycle.tgz'', RawQuery = '''',
                      Fragment = ''''\<rparr>
           \<and> fileserver_StaticRoutePath (test_environment two_registries)
               = Inr ''/v1/static/''
           \<and> url_ParseRequestURI (test_environment two_registries)
                 (urljoiner_Join (test_environment two_registries) (FileServerURL test_config)
                    [''/v1/static/'', ''docker_lifecycle/docker_app_lifecycle.tgz''])
               = Inr test_compilerURL"
    by code_simp
  have e: "URL_String (test_environment two_registries)
        \<lparr>Scheme = ''http'', Opaque = '''', Host = ''the-full-compiler-url'', Path = '''',
         RawQuery = '''', Fragment = ''''\<rparr> = ''http://the-full-compiler-url''"
    by code_simp
  have f: "URL_String (test_environment two_registries) test_compilerURL
     = FileServerURL test_config @ ''/v1/static/''
         @ ''docker_lifecycle/docker_app_lifecycle.tgz''"
    by code_simp
  show ?thesis
    using a b c d e f
      compiler_url_resolution [of no_compiler_config "test_environment two_registries"]
      compiler_url_resolution [of full_url_config "test_environment two_registries"
        "''http://the-full-compiler-url''"
        "\<lparr>Scheme = ''http'', Opaque = '''', Host = ''the-full-compiler-url'',
                      Path = '''', RawQuery = '''', Fragment = ''''\<rparr>"]
      compiler_url_resolution [of bad_url_config "test_environment two_registries"
        "''ftp://the-bad-compiler-url''"
        "\<lparr>Scheme = ''ftp'', Opaque = '''', Host = ''the-bad-compiler-url'',
                      Path = '''', RawQuery = '''', Fragment = ''''\<rparr>"]
      compiler_url_resolution [of test_config "test_environment two_registries"
        "''docker_lifecycle/docker_app_lifecycle.tgz''"
        "\<lparr>Scheme = '''', Opaque = '''', Host = '''',
                      Path = ''docker_lifecycle/docker_app_lifecycle.tgz'', RawQuery = '''',
                      Fragment = ''''\<rparr>"]
    by simp
qed

text \<open>
  The claim as stated fails for a file server URL without a scheme, such as
  \<^verbatim>\<open>file-server.com\<close>: the value has no scheme, the joined string is not a request
  URI and the result is an error.
\<close>

theorem file_server_without_scheme:
  "Lifecycles bare_file_server_config ''docker''
     = Some ''docker_lifecycle/docker_app_lifecycle.tgz''
   \<and> url_Parse (test_environment two_registries) ''docker_lifecycle/docker_app_lifecycle.tgz''
       = Inr \<lparr>Scheme = '''', Opaque = '''', Host = '''',
              Path = ''docker_lifecycle/docker_app_lifecycle.tgz'', RawQuery = '''',
              Fragment = ''''\<rparr>
   \<and> FileServerURL bare_file_server_config = ''file-server.com''
   \<and> urljoiner_Join (test_environment two_registries) ''file-server.com''
         [''/v1/static/'', ''docker_lifecycle/docker_app_lifecycle.tgz'']
       = ''file-server.com/v1/static/docker_lifecycle/docker_app_lifecycle.tgz''
   \<and> url_ParseRequestURI (test_environment two_registries)
         ''file-server.com/v1/static/docker_lifecycle/docker_app_lifecycle.tgz''
       = Inl (GoError ''invalid URI for request'')
   \<and> compilerDownloadURL (test_environment two_registries) bare_file_server_config
       = Inl (GoError ''failed to parse compiler download URL'')"
  by code_simp

subsection \<open>The annotation\<close>

text \<open>
  Claim C3. Given that \<^verbatim>\<open>json.Marshal\<close> writes the annotation of lifecycle
  \<^verbatim>\<open>docker\<close> as \<^verbatim>\<open>{"lifecycle":"docker"}\<close> and that \<^verbatim>\<open>json.Unmarshal\<close> reads it
  back: the annotation of every recipe that \<^verbatim>\<open>BuildRecipe\<close> produces is this string;
  on a callback that carries it \<^verbatim>\<open>BuildStagingResponse\<close> gets past the decoding of
  the annotation, so that its result is that of the rest of the function; and the
  dispatch of the outbox selects the docker backend.
\<close>

theorem annotation_round_trip:
  assumes "json_Marshal_StagingTaskAnnotation env \<lparr>annotation_Lifecycle = ''docker''\<rparr>
             = Inr docker_annotation"
    and "json_Unmarshal_StagingTaskAnnotation env docker_annotation
             = Inr \<lparr>annotation_Lifecycle = ''docker''\<rparr>"
    and "fst (BuildRecipe env config stagingGuid request) = Inr (td, g, d)"
    and "callback_Annotation taskResponse = Annotation td"
  shows "Annotation td = docker_annotation
       \<and> BuildStagingResponse env config taskResponse
           = (if Failed taskResponse then
                Inr \<lparr>response_Error = Some (Sanitizer config (FailureReason taskResponse)),
                     response_ExecutionMetadata = '''',
                     response_DetectedStartCommand = [],
                     response_LifecycleData = None\<rparr>
              else
                (case json_Unmarshal_StagingDockerResult env (Result taskResponse) of
                   Inl err \<Rightarrow> Inl err
                 | Inr result \<Rightarrow>
                     (case helpers_BuildDockerStagingData env (DockerImage result) of
                        Inl err \<Rightarrow> Inl err
                      | Inr dockerLifecycleData \<Rightarrow>
                          Inr \<lparr>response_Error = None,
                               response_ExecutionMetadata = ExecutionMetadata result,
                               response_DetectedStartCommand = DetectedStartCommand result,
                               response_LifecycleData = Some dockerLifecycleData\<rparr>)))
       \<and> outboxDispatch env taskResponse = Some DockerBackend"
proof -
  have annotation: "Annotation td = docker_annotation"
    using BuildRecipe_accepted [OF assms(3)] assms(1)
    by (auto simp: assembleTaskDefinition_def Let_def DockerLifecycleName_def)
  then have decoded: "json_Unmarshal_StagingTaskAnnotation env (callback_Annotation taskResponse)
                        = Inr \<lparr>annotation_Lifecycle = ''docker''\<rparr>"
    using assms(2,4) by simp
  show ?thesis
    using annotation decoded
    by (simp add: BuildStagingResponse_def outboxDispatch_def backendForLifecycle_def Let_def
          split: sum.splits)
qed

theorem annotation_round_trip_witness:
  "json_Marshal_StagingTaskAnnotation (test_environment two_registries)
      \<lparr>annotation_Lifecycle = ''docker''\<rparr> = Inr docker_annotation
   \<and> json_Unmarshal_StagingTaskAnnotation (test_environment two_registries) docker_annotation
       = Inr \<lparr>annotation_Lifecycle = ''docker''\<rparr>
   \<and> fst (BuildRecipe (test_environment two_registries) test_config ''staging-guid''
            test_request) = Inr (test_task, ''staging-guid'', '''')
   \<and> callback_Annotation failed_callback = Annotation test_task
   \<and> Annotation test_task = docker_annotation
   \<and> BuildStagingResponse (test_environment two_registries) test_config failed_callback
       = Inr \<lparr>response_Error =
                Some \<lparr>error_Id = '''',
                      error_Message = ''some-failure-reason was totally sanitized''\<rparr>,
              response_ExecutionMetadata = '''',
              response_DetectedStartCommand = [],
              response_LifecycleData = None\<rparr>
   \<and> outboxDispatch (test_environment two_registries) failed_callback = Some DockerBackend"
proof -
  have a: "json_Marshal_StagingTaskAnnotation (test_environment two_registries)
      \<lparr>annotation_Lifecycle = ''docker''\<rparr> = Inr docker_annotation"
    by code_simp
  have b: "json_Unmarshal_StagingTaskAnnotation (test_environment two_registries)
             docker_annotation = Inr \<lparr>annotation_Lifecycle = ''docker''\<rparr>"
    by code_simp
  have c: "fst (BuildRecipe (test_environment two_registries) test_config ''staging-guid''
            test_request) = Inr (test_task, ''staging-guid'', '''')"
    by (simp add: test_recipe)
  have d: "callback_Annotation failed_callback = Annotation test_task"
    by (simp add: failed_callback_def test_task_def)
  have e: "Failed failed_callback"
    and f: "Sanitizer test_config (FailureReason failed_callback)
              = \<lparr>error_Id = '''',
                 error_Message = ''some-failure-reason was totally sanitized''\<rparr>"
    by (simp_all add: failed_callback_def test_config_def test_sanitizer_def)
  show ?thesis
    using a b c d e f annotation_round_trip [OF a b c d] by simp
qed

end
